theory Spec2Isabelle
  imports Main "HOL-Library.Word"
begin

unbundle bit_operations_syntax

section \<open>The import directory of a PE image (manape/imports.cpp)\<close>

text \<open>
  A shallow embedding of \<^verbatim>\<open>PE::_parse_imports\<close> and of the query functions
  \<^verbatim>\<open>get_imported_dlls\<close>, \<^verbatim>\<open>get_imported_functions\<close>, \<^verbatim>\<open>_find_imported_dlls\<close> and
  \<^verbatim>\<open>find_imports\<close>. The C structures are records, the C integers are words of their
  width, the file handle is a byte sequence with a read position, and every
  \<^verbatim>\<open>return\<close> and \<^verbatim>\<open>break\<close> of the two parsing loops is a constructor of a control value.
\<close>

subsection \<open>Data\<close>

text \<open>
  \<^verbatim>\<open>image_import_descriptor\<close>: five 32-bit fields read from the file and the library
  name resolved from the \<^verbatim>\<open>Name\<close> RVA.
\<close>

record image_import_descriptor =
  OriginalFirstThunk :: "32 word"
  TimeDateStamp :: "32 word"
  ForwarderChain :: "32 word"
  Name :: "32 word"
  FirstThunk :: "32 word"
  NameStr :: string

text \<open>
  \<^verbatim>\<open>import_lookup_table\<close>: the raw thunk value (64 bits wide, only the low 32 bits are
  read for a PE32 image), the hint and the function name. The name field is called
  \<^verbatim>\<open>Name\<close> in the source; it is \<open>FunctionName\<close> here because the descriptor already has
  a field of that name.
\<close>

record import_lookup_table =
  AddressOfData :: "64 word"
  Hint :: "16 word"
  FunctionName :: string

text \<open>
  \<^verbatim>\<open>image_library_descriptor\<close> is a pair of a descriptor and the vector of its lookup
  entries.
\<close>

type_synonym image_library_descriptor = "image_import_descriptor \<times> import_lookup_table list"

text \<open>
  The file handle: the bytes of the file (a \<^typ>\<open>char\<close> is a byte) and the read
  position. \<^verbatim>\<open>fread\<close> returns the bytes that are there, at most \<open>n\<close>, and advances the
  position by their number; \<^verbatim>\<open>fseek\<close> with \<^verbatim>\<open>SEEK_SET\<close> fails (\<open>None\<close>) on a negative
  offset and otherwise sets the position, also beyond the end of the file; \<^verbatim>\<open>ftell\<close>
  returns the position as a \<^verbatim>\<open>long\<close>.
\<close>

record FILE =
  contents :: "char list"
  cursor :: nat

definition fread :: "nat \<Rightarrow> FILE \<Rightarrow> char list \<times> FILE" where
  "fread n f =
     (let bs = take n (drop (cursor f) (contents f))
      in (bs, f\<lparr>cursor := cursor f + length bs\<rparr>))"

definition fseek :: "FILE \<Rightarrow> int \<Rightarrow> FILE option" where
  "fseek f off = (if off < 0 then None else Some (f\<lparr>cursor := nat off\<rparr>))"

definition ftell :: "FILE \<Rightarrow> int" where
  "ftell f = int (cursor f)"

text \<open>Bytes overlaid on an integer field of a little-endian host.\<close>

fun le_word :: "char list \<Rightarrow> 'a::len word" where
  "le_word [] = 0"
| "le_word (b # bs) = of_char b OR push_bit 8 (le_word bs)"

text \<open>The messages of \<^verbatim>\<open>PRINT_ERROR\<close> and \<^verbatim>\<open>PRINT_WARNING\<close>, in the order printed.\<close>

datatype log_entry = Error string | Warning string

text \<open>
  The members of \<^verbatim>\<open>PE\<close> that this file reads and writes (\<open>pe_imports\<close> is
  \<^verbatim>\<open>_imports\<close>). \<open>ioh\<close> is the \<^verbatim>\<open>Magic\<close> field
  of the optional header when that header was parsed (\<^verbatim>\<open>_ioh\<close> is an optional value),
  \<open>file_handle\<close> is \<open>None\<close> for a null handle.
\<close>

record PE =
  ioh :: "16 word option"
  file_handle :: "FILE option"
  pe_imports :: "image_library_descriptor list"
  initialized :: bool

subsection \<open>The query layer\<close>

text \<open>\<^verbatim>\<open>get_imported_dlls\<close>: the names of the libraries, in order.\<close>

definition get_imported_dlls :: "PE \<Rightarrow> string list" where
  "get_imported_dlls pe =
     (if \<not> initialized pe then [] else map (\<lambda>l. NameStr (fst l)) (pe_imports pe))"

text \<open>The decimal text that \<^verbatim>\<open>operator<<\<close> writes for an unsigned integer.\<close>

function show_nat :: "nat \<Rightarrow> string" where
  "show_nat n =
     (if n < 10 then [''0123456789'' ! n]
      else show_nat (n div 10) @ [''0123456789'' ! (n mod 10)])"
  by pat_completeness auto
termination
  by (relation "measure id") auto

text \<open>The first library whose name is exactly \<open>dll\<close> (the loop with \<^verbatim>\<open>break\<close>).\<close>

fun find_library :: "image_library_descriptor list \<Rightarrow> string \<Rightarrow> image_library_descriptor option" where
  "find_library [] dll = None"
| "find_library (l # ls) dll = (if NameStr (fst l) = dll then Some l else find_library ls dll)"

text \<open>The label of one entry: its name, or \<^verbatim>\<open>#\<close> and the low 15 bits of the raw value.\<close>

definition function_label :: "import_lookup_table \<Rightarrow> string" where
  "function_label e =
     (if FunctionName e \<noteq> [] then FunctionName e
      else CHR ''#'' # show_nat (unat (AddressOfData e AND 0x7FFF)))"

definition get_imported_functions :: "PE \<Rightarrow> string \<Rightarrow> string list" where
  "get_imported_functions pe dll =
     (if \<not> initialized pe then []
      else case find_library (pe_imports pe) dll of
             None \<Rightarrow> []
           | Some ild \<Rightarrow> map function_label (snd ild))"

text \<open>
  Regular expressions are \<^verbatim>\<open>boost::regex\<close>, a library outside the repository: the
  functions below take the matcher as the parameter \<open>rm\<close>, where \<open>rm icase pattern s\<close>
  stands for \<^verbatim>\<open>boost::regex_match(s, boost::regex(pattern))\<close> when \<open>icase\<close> is false and
  for \<^verbatim>\<open>boost::regex_match(s, boost::regex(pattern, boost::regex::icase))\<close> when it is
  true.
\<close>

type_synonym regex_match = "bool \<Rightarrow> string \<Rightarrow> string \<Rightarrow> bool"

fun matching_dlls_loop ::
  "regex_match \<Rightarrow> bool \<Rightarrow> string \<Rightarrow> image_library_descriptor list \<Rightarrow> image_library_descriptor list"
where
  "matching_dlls_loop rm icase name_regexp [] = []"
| "matching_dlls_loop rm icase name_regexp (l # ls) =
     (if rm icase name_regexp (NameStr (fst l))
      then l # matching_dlls_loop rm icase name_regexp ls
      else matching_dlls_loop rm icase name_regexp ls)"

definition find_imported_dlls ::
  "regex_match \<Rightarrow> PE \<Rightarrow> string \<Rightarrow> bool \<Rightarrow> image_library_descriptor list"
where
  "find_imported_dlls rm pe name_regexp case_sensitivity =
     (if \<not> initialized pe then []
      else matching_dlls_loop rm (\<not> case_sensitivity) name_regexp (pe_imports pe))"

text \<open>The inner loop of \<^verbatim>\<open>find_imports\<close> over the entries of one library.\<close>

fun matching_functions_loop :: "regex_match \<Rightarrow> bool \<Rightarrow> string \<Rightarrow> import_lookup_table list \<Rightarrow> string list" where
  "matching_functions_loop rm icase function_name_regexp [] = []"
| "matching_functions_loop rm icase function_name_regexp (e # es) =
     (if FunctionName e = [] then matching_functions_loop rm icase function_name_regexp es
      else if rm icase function_name_regexp (FunctionName e)
      then FunctionName e # matching_functions_loop rm icase function_name_regexp es
      else matching_functions_loop rm icase function_name_regexp es)"

fun matching_imports_loop ::
  "regex_match \<Rightarrow> bool \<Rightarrow> string \<Rightarrow> image_library_descriptor list \<Rightarrow> string list"
where
  "matching_imports_loop rm icase function_name_regexp [] = []"
| "matching_imports_loop rm icase function_name_regexp (l # ls) =
     matching_functions_loop rm icase function_name_regexp (snd l)
       @ matching_imports_loop rm icase function_name_regexp ls"

text \<open>
  \<^verbatim>\<open>find_imports\<close> calls \<^verbatim>\<open>_find_imported_dlls(dll_name_regexp)\<close> with one argument, so
  the library pattern is matched with the default value that the declaration in
  \<^verbatim>\<open>manape/pe.h\<close> gives to \<^verbatim>\<open>case_sensitivity\<close>. That header is not part of the sources
  at hand: the default is the parameter \<open>dll_default\<close>.
\<close>

definition find_imports ::
  "regex_match \<Rightarrow> bool \<Rightarrow> PE \<Rightarrow> string \<Rightarrow> string \<Rightarrow> bool \<Rightarrow> string list"
where
  "find_imports rm dll_default pe function_name_regexp dll_name_regexp case_sensitivity =
     (if \<not> initialized pe then []
      else matching_imports_loop rm (\<not> case_sensitivity) function_name_regexp
             (find_imported_dlls rm pe dll_name_regexp dll_default))"

subsection \<open>Collaborators of the parser\<close>

text \<open>
  \<^verbatim>\<open>_parse_imports\<close> calls four functions of the repository that are defined in other
  files (\<^verbatim>\<open>PE::_rva_to_offset\<close>, \<^verbatim>\<open>PE::_reach_directory\<close>, \<^verbatim>\<open>utils::read_string_at_offset\<close>
  and \<^verbatim>\<open>utils::read_ascii_string\<close>) and compares the magic of the optional header with
  an entry of the table \<^verbatim>\<open>nt::IMAGE_OPTIONAL_HEADER_MAGIC\<close>. The parser is modelled over
  any such collaborators:
  \<^item> \<open>rva_to_offset\<close> returns 0 when the address cannot be translated (the source tests
    \<^verbatim>\<open>!offset\<close>, \<^verbatim>\<open>!ilt_offset\<close> and \<^verbatim>\<open>table_offset == 0\<close>); its argument is wide
    enough for the 64-bit thunk of line 111 and its result is an \<^verbatim>\<open>unsigned int\<close>;
  \<^item> \<open>reach_directory\<close> is \<^verbatim>\<open>_reach_directory(IMAGE_DIRECTORY_ENTRY_IMPORT)\<close>: its
    boolean result and the file handle as it leaves it;
  \<^item> \<open>read_string_at_offset\<close> returns its boolean result, the string written to its
    output parameter and the file handle as it leaves it;
  \<^item> \<open>read_ascii_string\<close> returns the string and the file handle as it leaves it;
  \<^item> \<open>pe32plus_magic\<close> is \<^verbatim>\<open>nt::IMAGE_OPTIONAL_HEADER_MAGIC.at("PE32+")\<close>.
\<close>

record collaborators =
  rva_to_offset :: "64 word \<Rightarrow> 32 word"
  reach_directory :: "FILE \<Rightarrow> bool \<times> FILE"
  read_string_at_offset :: "FILE \<Rightarrow> 32 word \<Rightarrow> bool \<times> string \<times> FILE"
  read_ascii_string :: "FILE \<Rightarrow> string \<times> FILE"
  pe32plus_magic :: "16 word"

subsection \<open>The descriptor loop\<close>

text \<open>How one iteration of a \<^verbatim>\<open>while (true)\<close> loop ends.\<close>

datatype 'a control = Continue 'a | Break 'a | Return 'a

text \<open>How a loop ends: it is left by \<^verbatim>\<open>break\<close>, or the function returns from inside it.\<close>

datatype 'a outcome = Fallthrough 'a | Returned 'a

fun exit_state :: "'a outcome \<Rightarrow> 'a" where
  "exit_state (Fallthrough s) = s"
| "exit_state (Returned s) = s"

text \<open>
  The state of a loop after \<open>k\<close> iterations that all reach the end of the loop body,
  when there is one.
\<close>

fun continue_n :: "('a \<Rightarrow> 'a control) \<Rightarrow> nat \<Rightarrow> 'a \<Rightarrow> 'a option" where
  "continue_n step 0 s = Some s"
| "continue_n step (Suc k) s =
     (case step s of
        Continue s' \<Rightarrow> continue_n step k s'
      | Break s' \<Rightarrow> None
      | Return s' \<Rightarrow> None)"

text \<open>The file handle, \<^verbatim>\<open>_imports\<close> and the messages printed so far.\<close>

record parse_state =
  fh :: FILE
  libs :: "image_library_descriptor list"
  msgs :: "log_entry list"

text \<open>The 20 bytes read over the zeroed descriptor; the name is still empty.\<close>

definition decode_descriptor :: "char list \<Rightarrow> image_import_descriptor" where
  "decode_descriptor bs =
     \<lparr>OriginalFirstThunk = le_word (take 4 bs),
      TimeDateStamp = le_word (take 4 (drop 4 bs)),
      ForwarderChain = le_word (take 4 (drop 8 bs)),
      Name = le_word (take 4 (drop 12 bs)),
      FirstThunk = le_word (take 4 (drop 16 bs)),
      NameStr = []\<rparr>"

text \<open>
  Lines 48 to 51: the file offset of the library name. An address that
  \<^verbatim>\<open>_rva_to_offset\<close> does not translate is used as the offset itself.
\<close>

definition name_offset :: "collaborators \<Rightarrow> image_import_descriptor \<Rightarrow> 32 word" where
  "name_offset env iid =
     (let offset = rva_to_offset env (ucast (Name iid))
      in if offset = 0 then Name iid else offset)"

text \<open>One iteration of the first loop of \<^verbatim>\<open>_parse_imports\<close> (lines 33 to 66).\<close>

definition read_descriptor :: "collaborators \<Rightarrow> parse_state \<Rightarrow> parse_state control" where
  "read_descriptor env s =
     (let (bs, f1) = fread 20 (fh s) in
      if length bs \<noteq> 20
      then Return (s\<lparr>fh := f1,
                     msgs := msgs s @ [Error ''Could not read the IMAGE_IMPORT_DESCRIPTOR.'']\<rparr>)
      else
        let iid = decode_descriptor bs in
        if OriginalFirstThunk iid = 0 \<and> FirstThunk iid = 0 then Break (s\<lparr>fh := f1\<rparr>)
        else
          let (ok, str, f2) = read_string_at_offset env f1 (name_offset env iid)
          in
            if \<not> ok then
              (if length (libs s) > 0
               then Break (s\<lparr>fh := f2,
                              msgs := msgs s @ [Warning ''Could not read an import's name.'']\<rparr>)
               else Return (s\<lparr>fh := f2,
                               msgs := msgs s @ [Error ''Could not read an import's name.'']\<rparr>))
            else Continue (s\<lparr>fh := f2, libs := libs s @ [(iid\<lparr>NameStr := str\<rparr>, [])]\<rparr>))"

partial_function (option) descriptor_loop ::
  "collaborators \<Rightarrow> parse_state \<Rightarrow> parse_state outcome option"
where
  "descriptor_loop env s =
     (case read_descriptor env s of
        Continue s' \<Rightarrow> descriptor_loop env s'
      | Break s' \<Rightarrow> Some (Fallthrough s')
      | Return s' \<Rightarrow> Some (Returned s'))"

declare descriptor_loop.simps [code]

subsection \<open>The lookup-table loops\<close>

text \<open>
  The file handle, the entries \<^verbatim>\<open>(*it)->second\<close> of the library being read and the
  messages printed so far.
\<close>

record lookup_state =
  lfh :: FILE
  second :: "import_lookup_table list"
  lmsgs :: "log_entry list"

text \<open>
  One iteration of the inner loop (lines 87 to 134). \<^verbatim>\<open>saved_offset\<close> is an
  \<^verbatim>\<open>unsigned int\<close> that receives the \<^verbatim>\<open>long\<close> of \<^verbatim>\<open>ftell\<close>, and its comparison with
  \<^verbatim>\<open>-1\<close> is a comparison with \<^verbatim>\<open>0xFFFFFFFF\<close>; both \<^verbatim>\<open>fseek\<close> calls receive an
  \<^verbatim>\<open>unsigned int\<close> converted to a \<^verbatim>\<open>long\<close> of 64 bits.
\<close>

definition read_thunk :: "collaborators \<Rightarrow> bool \<Rightarrow> lookup_state \<Rightarrow> lookup_state control" where
  "read_thunk env is_pe32plus s =
     (let size_to_read = (if is_pe32plus then 8 else 4 :: nat);
          (bs, f1) = fread size_to_read (lfh s)
      in
        if length bs \<noteq> size_to_read
        then Return (s\<lparr>lfh := f1,
                       lmsgs := lmsgs s @ [Error ''Could not read the IMPORT_LOOKUP_TABLE.'']\<rparr>)
        else
          let address_of_data = (le_word bs :: 64 word) in
          if address_of_data = 0 then Break (s\<lparr>lfh := f1\<rparr>)
          else
            let mask = (if size_to_read = 8 then 0x8000000000000000 else 0x80000000 :: 64 word) in
            if address_of_data AND mask = 0 then
              let table_offset = rva_to_offset env (address_of_data AND 0x7FFFFFFF) in
              if table_offset = 0
              then Return (s\<lparr>lfh := f1,
                             lmsgs := lmsgs s @ [Error ''Could not reach the HINT/NAME table.'']\<rparr>)
              else
                let saved_offset = (word_of_int (ftell f1) :: 32 word) in
                case (if saved_offset = - 1 then None else fseek f1 (uint table_offset)) of
                  None \<Rightarrow>
                    Return (s\<lparr>lfh := f1,
                              lmsgs := lmsgs s @ [Error ''Could not read a HINT/NAME hint.'']\<rparr>)
                | Some f2 \<Rightarrow>
                    let (hb, f3) = fread 2 f2 in
                    if length hb \<noteq> 2
                    then Return (s\<lparr>lfh := f3,
                                   lmsgs := lmsgs s @ [Error ''Could not read a HINT/NAME hint.'']\<rparr>)
                    else
                      let (name, f4) = read_ascii_string env f3 in
                      (case fseek f4 (uint saved_offset) of
                         None \<Rightarrow> Return (s\<lparr>lfh := f4\<rparr>)
                       | Some f5 \<Rightarrow>
                           Continue (s\<lparr>lfh := f5,
                                       second := second s @
                                         [\<lparr>AddressOfData = address_of_data, Hint = le_word hb,
                                           FunctionName = name\<rparr>]\<rparr>))
            else
              Continue (s\<lparr>lfh := f1,
                          second := second s @
                            [\<lparr>AddressOfData = address_of_data, Hint = 0, FunctionName = []\<rparr>]\<rparr>))"

partial_function (option) lookup_loop ::
  "collaborators \<Rightarrow> bool \<Rightarrow> lookup_state \<Rightarrow> lookup_state outcome option"
where
  "lookup_loop env is_pe32plus s =
     (case read_thunk env is_pe32plus s of
        Continue s' \<Rightarrow> lookup_loop env is_pe32plus s'
      | Break s' \<Rightarrow> Some (Fallthrough s')
      | Return s' \<Rightarrow> Some (Returned s'))"

declare lookup_loop.simps [code]

text \<open>
  Lines 72 to 79: the lookup table of a library is the one of \<^verbatim>\<open>OriginalFirstThunk\<close>,
  or the one of \<^verbatim>\<open>FirstThunk\<close> when that field is 0. \<^verbatim>\<open>ilt_offset\<close> is an \<^verbatim>\<open>int\<close> that
  receives an \<^verbatim>\<open>unsigned int\<close>. The result is \<open>None\<close> when the condition
  \<^verbatim>\<open>!ilt_offset || fseek(...)\<close> holds.
\<close>

definition ilt_offset :: "collaborators \<Rightarrow> image_import_descriptor \<Rightarrow> 32 word" where
  "ilt_offset env iid =
     (if OriginalFirstThunk iid \<noteq> 0
      then rva_to_offset env (ucast (OriginalFirstThunk iid))
      else rva_to_offset env (ucast (FirstThunk iid)))"

definition reach_lookup_table :: "collaborators \<Rightarrow> image_import_descriptor \<Rightarrow> FILE \<Rightarrow> FILE option" where
  "reach_lookup_table env iid f =
     (if ilt_offset env iid = 0 then None else fseek f (sint (ilt_offset env iid)))"

text \<open>
  The loop over \<^verbatim>\<open>_imports\<close> (lines 70 to 136): \<open>done\<close> are the libraries before the
  iterator, the head of the third list is the library \<^verbatim>\<open>*it\<close>.
\<close>

fun lookup_tables ::
  "collaborators \<Rightarrow> bool \<Rightarrow> image_library_descriptor list \<Rightarrow> image_library_descriptor list
     \<Rightarrow> FILE \<Rightarrow> log_entry list \<Rightarrow> parse_state option"
where
  "lookup_tables env is_pe32plus done [] f lg = Some \<lparr>fh = f, libs = done, msgs = lg\<rparr>"
| "lookup_tables env is_pe32plus done (it # rest) f lg =
     (case reach_lookup_table env (fst it) f of
        None \<Rightarrow>
          Some \<lparr>fh = f, libs = done @ it # rest,
                msgs = lg @ [Error ''Could not reach an IMPORT_LOOKUP_TABLE.'']\<rparr>
      | Some f1 \<Rightarrow>
          (case lookup_loop env is_pe32plus \<lparr>lfh = f1, second = snd it, lmsgs = lg\<rparr> of
             None \<Rightarrow> None
           | Some (Returned t) \<Rightarrow>
               Some \<lparr>fh = lfh t, libs = done @ (fst it, second t) # rest, msgs = lmsgs t\<rparr>
           | Some (Fallthrough t) \<Rightarrow>
               lookup_tables env is_pe32plus (done @ [(fst it, second t)]) rest (lfh t) (lmsgs t)))"

subsection \<open>The parser\<close>

text \<open>
  \<^verbatim>\<open>_parse_imports\<close>: the value returned, the object with its file handle and
  \<^verbatim>\<open>_imports\<close> as the call leaves them, and the messages printed. \<open>None\<close> is a call that
  does not return.
\<close>

definition parse_imports :: "collaborators \<Rightarrow> PE \<Rightarrow> (bool \<times> PE \<times> log_entry list) option" where
  "parse_imports env pe =
     (case (ioh pe, file_handle pe) of
        (Some magic, Some f) \<Rightarrow>
          (case reach_directory env f of
             (False, f0) \<Rightarrow> Some (True, pe\<lparr>file_handle := Some f0\<rparr>, [])
           | (True, f0) \<Rightarrow>
               (case descriptor_loop env \<lparr>fh = f0, libs = pe_imports pe, msgs = []\<rparr> of
                  None \<Rightarrow> None
                | Some (Returned s) \<Rightarrow>
                    Some (True, pe\<lparr>file_handle := Some (fh s), pe_imports := libs s\<rparr>, msgs s)
                | Some (Fallthrough s) \<Rightarrow>
                    (case lookup_tables env (magic = pe32plus_magic env) [] (libs s) (fh s) (msgs s) of
                       None \<Rightarrow> None
                     | Some s' \<Rightarrow>
                         Some (True, pe\<lparr>file_handle := Some (fh s'), pe_imports := libs s'\<rparr>,
                               msgs s'))))
      | _ \<Rightarrow> Some (False, pe, []))"

subsection \<open>Collaborators for concrete images\<close>

text \<open>
  Modelled from the spec: \<^verbatim>\<open>PE::_rva_to_offset\<close> is defined outside the sources at hand.
  The spec's RVA Translator finds the section whose virtual-address range contains the
  address and adds the distance from the section's virtual base to its file-offset
  base; the source receives 0 for an address that no section contains.
\<close>

record section_entry =
  VirtualAddress :: "32 word"
  VirtualSize :: "32 word"
  PointerToRawData :: "32 word"

fun spec_rva_to_offset :: "section_entry list \<Rightarrow> 64 word \<Rightarrow> 32 word" where
  "spec_rva_to_offset [] rva = 0"
| "spec_rva_to_offset (sec # secs) rva =
     (if ucast (VirtualAddress sec) \<le> rva
         \<and> rva < ucast (VirtualAddress sec) + ucast (VirtualSize sec)
      then PointerToRawData sec + ucast (rva - ucast (VirtualAddress sec))
      else spec_rva_to_offset secs rva)"

text \<open>
  Modelled from the spec: \<^verbatim>\<open>PE::_reach_directory\<close> is defined outside the sources at
  hand. The spec's Directory Locator reports the directory absent when its RVA is 0,
  translates the RVA with no fallback and gives the offset where reading begins.
\<close>

definition spec_reach_directory :: "section_entry list \<Rightarrow> 32 word \<Rightarrow> FILE \<Rightarrow> bool \<times> FILE" where
  "spec_reach_directory secs directory_rva f =
     (if directory_rva = 0 then (False, f)
      else
        let offset = spec_rva_to_offset secs (ucast directory_rva) in
        if offset = 0 then (False, f)
        else case fseek f (uint offset) of None \<Rightarrow> (False, f) | Some f' \<Rightarrow> (True, f'))"

text \<open>
  Modelled from the spec: \<^verbatim>\<open>utils::read_ascii_string\<close> is defined outside the sources
  at hand. It reads a null-terminated ASCII string at the read position: the bytes
  before the first zero byte, which it consumes; at the end of the file it returns the
  bytes read so far.
\<close>

definition spec_read_ascii_string :: "FILE \<Rightarrow> string \<times> FILE" where
  "spec_read_ascii_string f =
     (let rest = drop (cursor f) (contents f);
          str = takeWhile (\<lambda>c. c \<noteq> CHR 0x00) rest
      in (str, f\<lparr>cursor := cursor f + length str + (if length str < length rest then 1 else 0)\<rparr>))"

text \<open>
  Modelled from the spec: \<^verbatim>\<open>utils::read_string_at_offset\<close> is defined outside the
  sources at hand. It reads a null-terminated ASCII string at the offset, and the side
  read is bracketed by a save and a restore of the read position. The spec does not
  say when the read fails: here it fails when the offset cannot be reached or when no
  character of a string is found there.
\<close>

definition spec_read_string_at_offset :: "FILE \<Rightarrow> 32 word \<Rightarrow> bool \<times> string \<times> FILE" where
  "spec_read_string_at_offset f offset =
     (case fseek f (uint offset) of
        None \<Rightarrow> (False, [], f)
      | Some f1 \<Rightarrow>
          let (str, f2) = spec_read_ascii_string f1
          in (str \<noteq> [], str, f2\<lparr>cursor := cursor f\<rparr>))"

text \<open>
  The collaborators of an image with the section table \<open>secs\<close> and the import
  directory at \<open>directory_rva\<close>; \<^verbatim>\<open>0x20B\<close> is the magic of a PE32+ optional header.
\<close>

definition spec_collaborators :: "section_entry list \<Rightarrow> 32 word \<Rightarrow> collaborators" where
  "spec_collaborators secs directory_rva =
     \<lparr>rva_to_offset = spec_rva_to_offset secs,
      reach_directory = spec_reach_directory secs directory_rva,
      read_string_at_offset = spec_read_string_at_offset,
      read_ascii_string = spec_read_ascii_string,
      pe32plus_magic = 0x20B\<rparr>"

text \<open>
  A matcher for concrete patterns. It stands for \<^verbatim>\<open>boost::regex_match\<close> on texts
  without line breaks and on the patterns made of literal characters, a backslash
  followed by a special character of the pattern language (that character), \<^verbatim>\<open>.\<close> (any
  character), \<^verbatim>\<open>^\<close> and \<^verbatim>\<open>$\<close> (the two ends of the text) and a \<^verbatim>\<open>*\<close> after a literal
  character or a \<^verbatim>\<open>.\<close> (any number of repetitions); the whole text has to match. With
  \<open>icase\<close>, letters are compared without their case. Every other pattern (a backslash
  before a letter, a digit or any other character, one of the characters
  \<^verbatim>\<open>+ ? ( ) [ ] { } |\<close> without a backslash, a \<^verbatim>\<open>*\<close> in another place) is outside of what
  the matcher stands for: \<open>rx_tokens\<close> or \<open>rx_well_formed\<close> refuses it, and the answer
  \<open>False\<close> then says nothing about the engine.
\<close>

datatype rx_token = Lit char | AnyChar | LineStart | LineEnd | Star

definition rx_token_of :: "char \<Rightarrow> rx_token" where
  "rx_token_of c =
     (if c = CHR ''.'' then AnyChar
      else if c = CHR ''^'' then LineStart
      else if c = CHR ''$'' then LineEnd
      else if c = CHR ''*'' then Star
      else Lit c)"

text \<open>The characters that a backslash makes literal (\<^verbatim>\<open>0x5C\<close> is the backslash).\<close>

definition rx_special :: "char \<Rightarrow> bool" where
  "rx_special c = (c \<in> set (CHR 0x5C # ''.^$*+?()[]{}|''))"

text \<open>The characters whose meaning without a backslash is not modelled.\<close>

definition rx_unsupported :: "char \<Rightarrow> bool" where
  "rx_unsupported c = (c \<in> set (CHR 0x5C # ''+?()[]{}|''))"

fun rx_tokens :: "string \<Rightarrow> rx_token list option" where
  "rx_tokens [] = Some []"
| "rx_tokens [c] = (if rx_unsupported c then None else Some [rx_token_of c])"
| "rx_tokens (c # d # cs) =
     (if c = CHR 0x5C
      then (if rx_special d then map_option ((#) (Lit d)) (rx_tokens cs) else None)
      else if rx_unsupported c then None
      else map_option ((#) (rx_token_of c)) (rx_tokens (d # cs)))"

text \<open>A \<^verbatim>\<open>*\<close> stands after a literal character or a \<^verbatim>\<open>.\<close> only.\<close>

fun rx_well_formed :: "rx_token list \<Rightarrow> bool" where
  "rx_well_formed [] = True"
| "rx_well_formed (Star # ts) = False"
| "rx_well_formed (Lit c # Star # ts) = rx_well_formed ts"
| "rx_well_formed (AnyChar # Star # ts) = rx_well_formed ts"
| "rx_well_formed (t # Star # ts) = False"
| "rx_well_formed (t # ts) = rx_well_formed ts"

definition lower :: "char \<Rightarrow> char" where
  "lower c =
     (case map_of (zip ''ABCDEFGHIJKLMNOPQRSTUVWXYZ'' ''abcdefghijklmnopqrstuvwxyz'') c of
        None \<Rightarrow> c
      | Some d \<Rightarrow> d)"

fun rx_token_ok :: "bool \<Rightarrow> rx_token \<Rightarrow> char \<Rightarrow> bool" where
  "rx_token_ok icase (Lit d) c = (if icase then lower d = lower c else d = c)"
| "rx_token_ok icase AnyChar c = True"
| "rx_token_ok icase t c = False"

fun rx_match :: "bool \<Rightarrow> bool \<Rightarrow> rx_token list \<Rightarrow> string \<Rightarrow> bool" where
  "rx_match icase at_start [] s = (s = [])"
| "rx_match icase at_start (t # Star # ts) s =
     (rx_match icase at_start ts s
      \<or> (case s of
            [] \<Rightarrow> False
          | c # cs \<Rightarrow> rx_token_ok icase t c \<and> rx_match icase False (t # Star # ts) cs))"
| "rx_match icase at_start (LineStart # ts) s = (at_start \<and> rx_match icase at_start ts s)"
| "rx_match icase at_start (LineEnd # ts) s = (s = [] \<and> rx_match icase at_start ts s)"
| "rx_match icase at_start (t # ts) [] = False"
| "rx_match icase at_start (t # ts) (c # cs) =
     (rx_token_ok icase t c \<and> rx_match icase False ts cs)"

definition regex_match_subset :: regex_match where
  "regex_match_subset icase pattern s =
     (case rx_tokens pattern of
        None \<Rightarrow> False
      | Some ts \<Rightarrow> rx_well_formed ts \<and> rx_match icase True ts s)"

subsection \<open>Concrete tables and images\<close>

text \<open>
  The table of the spec's search example: the library \<^verbatim>\<open>kernel32.dll\<close> with the
  functions \<^verbatim>\<open>CreateFileA\<close> and \<^verbatim>\<open>CreateMutexW\<close> and the import by ordinal 7.
\<close>

definition kernel32_descriptor :: image_import_descriptor where
  "kernel32_descriptor =
     \<lparr>OriginalFirstThunk = 0x102C, TimeDateStamp = 0, ForwarderChain = 0,
      Name = 0x103C, FirstThunk = 0x102C, NameStr = ''kernel32.dll''\<rparr>"

definition kernel32_table :: PE where
  "kernel32_table =
     \<lparr>ioh = Some 0x10B,
      file_handle = Some \<lparr>contents = [], cursor = 0\<rparr>,
      pe_imports =
        [(kernel32_descriptor,
          [\<lparr>AddressOfData = 0x1049, Hint = 0, FunctionName = ''CreateFileA''\<rparr>,
           \<lparr>AddressOfData = 0x1058, Hint = 0, FunctionName = ''CreateMutexW''\<rparr>,
           \<lparr>AddressOfData = 0x80000007, Hint = 0, FunctionName = []\<rparr>])],
      initialized = True\<rparr>"

text \<open>The pattern \<^verbatim>\<open>^KERNEL32\.DLL$\<close> (character \<^verbatim>\<open>0x5C\<close> is the backslash).\<close>

definition kernel32_pattern :: string where
  "kernel32_pattern = ''^KERNEL32'' @ [CHR 0x5C] @ ''.DLL$''"

text \<open>
  The search as the spec words it: both patterns are matched with the case
  sensitivity of the flag, and the entries without a name are skipped.
\<close>

definition spec_search :: "regex_match \<Rightarrow> PE \<Rightarrow> string \<Rightarrow> string \<Rightarrow> bool \<Rightarrow> string list" where
  "spec_search rm pe function_pattern library_pattern case_sensitive =
     concat (map (\<lambda>l. filter (\<lambda>n. n \<noteq> [] \<and> rm (\<not> case_sensitive) function_pattern n)
                          (map FunctionName (snd l)))
                 (filter (\<lambda>l. rm (\<not> case_sensitive) library_pattern (NameStr (fst l)))
                         (pe_imports pe)))"

text \<open>
  Images are PE32 files with one section that maps the addresses \<^verbatim>\<open>0x1000\<close> to
  \<^verbatim>\<open>0x1FFF\<close> to the file offsets from 0, and with the import directory at the address
  \<^verbatim>\<open>0x1004\<close>, which is the file offset 4.
\<close>

definition one_section :: "section_entry list" where
  "one_section = [\<lparr>VirtualAddress = 0x1000, VirtualSize = 0x1000, PointerToRawData = 0\<rparr>]"

definition image_collaborators :: collaborators where
  "image_collaborators = spec_collaborators one_section 0x1004"

text \<open>A file handle on the bytes of an image, with the read position at \<open>n\<close>.\<close>

definition file_at :: "char list \<Rightarrow> nat \<Rightarrow> FILE" where
  "file_at bytes n = \<lparr>contents = bytes, cursor = n\<rparr>"

definition pe32_of :: "char list \<Rightarrow> PE" where
  "pe32_of bytes =
     \<lparr>ioh = Some 0x10B, file_handle = Some \<lparr>contents = bytes, cursor = 0\<rparr>,
      pe_imports = [], initialized = False\<rparr>"

text \<open>
  An image that imports from \<^verbatim>\<open>kernel32.dll\<close> the function \<^verbatim>\<open>CreateFileA\<close> by name and
  the ordinal \<^verbatim>\<open>0x8000\<close>. Offsets 4 to 23 hold the descriptor (thunks at \<^verbatim>\<open>0x102C\<close>, name
  at \<^verbatim>\<open>0x103C\<close>), 24 to 43 the null descriptor, 44 to 55 the thunks \<^verbatim>\<open>0x00001049\<close>,
  \<^verbatim>\<open>0x80008000\<close> and 0, 60 to 72 the library name, 73 and 74 the hint and 75 to 86 the
  function name.
\<close>

definition ordinal_image :: "char list" where
  "ordinal_image = [
       CHR 0x4D, CHR 0x5A, CHR 0x00, CHR 0x00, CHR 0x2C, CHR 0x10, CHR 0x00, CHR 0x00,
       CHR 0x00, CHR 0x00, CHR 0x00, CHR 0x00, CHR 0x00, CHR 0x00, CHR 0x00, CHR 0x00,
       CHR 0x3C, CHR 0x10, CHR 0x00, CHR 0x00, CHR 0x2C, CHR 0x10, CHR 0x00, CHR 0x00,
       CHR 0x00, CHR 0x00, CHR 0x00, CHR 0x00, CHR 0x00, CHR 0x00, CHR 0x00, CHR 0x00,
       CHR 0x00, CHR 0x00, CHR 0x00, CHR 0x00, CHR 0x00, CHR 0x00, CHR 0x00, CHR 0x00,
       CHR 0x00, CHR 0x00, CHR 0x00, CHR 0x00, CHR 0x49, CHR 0x10, CHR 0x00, CHR 0x00,
       CHR 0x00, CHR 0x80, CHR 0x00, CHR 0x80, CHR 0x00, CHR 0x00, CHR 0x00, CHR 0x00,
       CHR 0x00, CHR 0x00, CHR 0x00, CHR 0x00, CHR 0x6B, CHR 0x65, CHR 0x72, CHR 0x6E,
       CHR 0x65, CHR 0x6C, CHR 0x33, CHR 0x32, CHR 0x2E, CHR 0x64, CHR 0x6C, CHR 0x6C,
       CHR 0x00, CHR 0x02, CHR 0x01, CHR 0x43, CHR 0x72, CHR 0x65, CHR 0x61, CHR 0x74,
       CHR 0x65, CHR 0x46, CHR 0x69, CHR 0x6C, CHR 0x65, CHR 0x41, CHR 0x00]"

text \<open>
  \<open>ordinal_image\<close> with the \<^verbatim>\<open>Name\<close> field of its descriptor set to \<^verbatim>\<open>0x3C\<close>, an address
  outside the section that is the file offset of the library name.
\<close>

definition direct_name_image :: "char list" where
  "direct_name_image = [
       CHR 0x4D, CHR 0x5A, CHR 0x00, CHR 0x00, CHR 0x2C, CHR 0x10, CHR 0x00, CHR 0x00,
       CHR 0x00, CHR 0x00, CHR 0x00, CHR 0x00, CHR 0x00, CHR 0x00, CHR 0x00, CHR 0x00,
       CHR 0x3C, CHR 0x00, CHR 0x00, CHR 0x00, CHR 0x2C, CHR 0x10, CHR 0x00, CHR 0x00,
       CHR 0x00, CHR 0x00, CHR 0x00, CHR 0x00, CHR 0x00, CHR 0x00, CHR 0x00, CHR 0x00,
       CHR 0x00, CHR 0x00, CHR 0x00, CHR 0x00, CHR 0x00, CHR 0x00, CHR 0x00, CHR 0x00,
       CHR 0x00, CHR 0x00, CHR 0x00, CHR 0x00, CHR 0x49, CHR 0x10, CHR 0x00, CHR 0x00,
       CHR 0x00, CHR 0x80, CHR 0x00, CHR 0x80, CHR 0x00, CHR 0x00, CHR 0x00, CHR 0x00,
       CHR 0x00, CHR 0x00, CHR 0x00, CHR 0x00, CHR 0x6B, CHR 0x65, CHR 0x72, CHR 0x6E,
       CHR 0x65, CHR 0x6C, CHR 0x33, CHR 0x32, CHR 0x2E, CHR 0x64, CHR 0x6C, CHR 0x6C,
       CHR 0x00, CHR 0x02, CHR 0x01, CHR 0x43, CHR 0x72, CHR 0x65, CHR 0x61, CHR 0x74,
       CHR 0x65, CHR 0x46, CHR 0x69, CHR 0x6C, CHR 0x65, CHR 0x41, CHR 0x00]"

text \<open>
  \<open>ordinal_image\<close> with the \<^verbatim>\<open>OriginalFirstThunk\<close> field of its descriptor set to
  \<^verbatim>\<open>0x5000\<close>, an address outside the section.
\<close>

definition unmapped_table_image :: "char list" where
  "unmapped_table_image = [
       CHR 0x4D, CHR 0x5A, CHR 0x00, CHR 0x00, CHR 0x00, CHR 0x50, CHR 0x00, CHR 0x00,
       CHR 0x00, CHR 0x00, CHR 0x00, CHR 0x00, CHR 0x00, CHR 0x00, CHR 0x00, CHR 0x00,
       CHR 0x3C, CHR 0x10, CHR 0x00, CHR 0x00, CHR 0x2C, CHR 0x10, CHR 0x00, CHR 0x00,
       CHR 0x00, CHR 0x00, CHR 0x00, CHR 0x00, CHR 0x00, CHR 0x00, CHR 0x00, CHR 0x00,
       CHR 0x00, CHR 0x00, CHR 0x00, CHR 0x00, CHR 0x00, CHR 0x00, CHR 0x00, CHR 0x00,
       CHR 0x00, CHR 0x00, CHR 0x00, CHR 0x00, CHR 0x49, CHR 0x10, CHR 0x00, CHR 0x00,
       CHR 0x00, CHR 0x80, CHR 0x00, CHR 0x80, CHR 0x00, CHR 0x00, CHR 0x00, CHR 0x00,
       CHR 0x00, CHR 0x00, CHR 0x00, CHR 0x00, CHR 0x6B, CHR 0x65, CHR 0x72, CHR 0x6E,
       CHR 0x65, CHR 0x6C, CHR 0x33, CHR 0x32, CHR 0x2E, CHR 0x64, CHR 0x6C, CHR 0x6C,
       CHR 0x00, CHR 0x02, CHR 0x01, CHR 0x43, CHR 0x72, CHR 0x65, CHR 0x61, CHR 0x74,
       CHR 0x65, CHR 0x46, CHR 0x69, CHR 0x6C, CHR 0x65, CHR 0x41, CHR 0x00]"

text \<open>
  \<open>ordinal_image\<close> with its first thunk set to \<^verbatim>\<open>0x00005000\<close>: an import by name whose
  hint and name are at an address outside the section.
\<close>

definition unmapped_hint_image :: "char list" where
  "unmapped_hint_image = [
       CHR 0x4D, CHR 0x5A, CHR 0x00, CHR 0x00, CHR 0x2C, CHR 0x10, CHR 0x00, CHR 0x00,
       CHR 0x00, CHR 0x00, CHR 0x00, CHR 0x00, CHR 0x00, CHR 0x00, CHR 0x00, CHR 0x00,
       CHR 0x3C, CHR 0x10, CHR 0x00, CHR 0x00, CHR 0x2C, CHR 0x10, CHR 0x00, CHR 0x00,
       CHR 0x00, CHR 0x00, CHR 0x00, CHR 0x00, CHR 0x00, CHR 0x00, CHR 0x00, CHR 0x00,
       CHR 0x00, CHR 0x00, CHR 0x00, CHR 0x00, CHR 0x00, CHR 0x00, CHR 0x00, CHR 0x00,
       CHR 0x00, CHR 0x00, CHR 0x00, CHR 0x00, CHR 0x00, CHR 0x50, CHR 0x00, CHR 0x00,
       CHR 0x00, CHR 0x80, CHR 0x00, CHR 0x80, CHR 0x00, CHR 0x00, CHR 0x00, CHR 0x00,
       CHR 0x00, CHR 0x00, CHR 0x00, CHR 0x00, CHR 0x6B, CHR 0x65, CHR 0x72, CHR 0x6E,
       CHR 0x65, CHR 0x6C, CHR 0x33, CHR 0x32, CHR 0x2E, CHR 0x64, CHR 0x6C, CHR 0x6C,
       CHR 0x00, CHR 0x02, CHR 0x01, CHR 0x43, CHR 0x72, CHR 0x65, CHR 0x61, CHR 0x74,
       CHR 0x65, CHR 0x46, CHR 0x69, CHR 0x6C, CHR 0x65, CHR 0x41, CHR 0x00]"





text \<open>
  An image with two descriptors before the null one. The first (offsets 4 to 23)
  names \<^verbatim>\<open>a.dll\<close> (offset 80) and has its thunks at offset 64 (the ordinal 7, then 0);
  the name of the second (offsets 24 to 43) is at the address \<^verbatim>\<open>0x1F00\<close>, offset
  \<^verbatim>\<open>0xF00\<close>, beyond the end of the file.
\<close>

definition unreadable_second_name_image :: "char list" where
  "unreadable_second_name_image = [
       CHR 0x4D, CHR 0x5A, CHR 0x00, CHR 0x00, CHR 0x40, CHR 0x10, CHR 0x00, CHR 0x00,
       CHR 0x00, CHR 0x00, CHR 0x00, CHR 0x00, CHR 0x00, CHR 0x00, CHR 0x00, CHR 0x00,
       CHR 0x50, CHR 0x10, CHR 0x00, CHR 0x00, CHR 0x40, CHR 0x10, CHR 0x00, CHR 0x00,
       CHR 0x40, CHR 0x10, CHR 0x00, CHR 0x00, CHR 0x00, CHR 0x00, CHR 0x00, CHR 0x00,
       CHR 0x00, CHR 0x00, CHR 0x00, CHR 0x00, CHR 0x00, CHR 0x1F, CHR 0x00, CHR 0x00,
       CHR 0x40, CHR 0x10, CHR 0x00, CHR 0x00, CHR 0x00, CHR 0x00, CHR 0x00, CHR 0x00,
       CHR 0x00, CHR 0x00, CHR 0x00, CHR 0x00, CHR 0x00, CHR 0x00, CHR 0x00, CHR 0x00,
       CHR 0x00, CHR 0x00, CHR 0x00, CHR 0x00, CHR 0x00, CHR 0x00, CHR 0x00, CHR 0x00,
       CHR 0x07, CHR 0x00, CHR 0x00, CHR 0x80, CHR 0x00, CHR 0x00, CHR 0x00, CHR 0x00,
       CHR 0x00, CHR 0x00, CHR 0x00, CHR 0x00, CHR 0x00, CHR 0x00, CHR 0x00, CHR 0x00,
       CHR 0x61, CHR 0x2E, CHR 0x64, CHR 0x6C, CHR 0x6C, CHR 0x00]"

text \<open>An image that ends after its first descriptor, whose name is beyond the end.\<close>

definition unreadable_first_name_image :: "char list" where
  "unreadable_first_name_image =
     [CHR 0x4D, CHR 0x5A, CHR 0x00, CHR 0x00, CHR 0x40, CHR 0x10, CHR 0x00, CHR 0x00,
      CHR 0x00, CHR 0x00, CHR 0x00, CHR 0x00, CHR 0x00, CHR 0x00, CHR 0x00, CHR 0x00,
      CHR 0x00, CHR 0x1F, CHR 0x00, CHR 0x00, CHR 0x40, CHR 0x10, CHR 0x00, CHR 0x00]"






section \<open>Properties of the query layer\<close>

lemma matching_functions_loop_filter:
  "matching_functions_loop rm icase pat es =
     filter (\<lambda>n. n \<noteq> [] \<and> rm icase pat n) (map FunctionName es)"
  by (induction es) simp_all

lemma matching_imports_loop_concat:
  "matching_imports_loop rm icase pat ls =
     concat (map (\<lambda>l. filter (\<lambda>n. n \<noteq> [] \<and> rm icase pat n) (map FunctionName (snd l))) ls)"
  by (induction ls) (simp_all add: matching_functions_loop_filter)

lemma matching_dlls_loop_filter:
  "matching_dlls_loop rm icase pat ls = filter (\<lambda>l. rm icase pat (NameStr (fst l))) ls"
  by (induction ls) simp_all

lemmas regex_subset_defs =
  regex_match_subset_def rx_token_of_def rx_special_def rx_unsupported_def lower_def
  kernel32_pattern_def

lemmas query_defs =
  find_imports_def find_imported_dlls_def get_imported_functions_def get_imported_dlls_def
  function_label_def

text \<open>
  C10. A query on an object that is not initialized returns the empty sequence:
  \<^verbatim>\<open>get_imported_dlls\<close>, \<^verbatim>\<open>get_imported_functions\<close> and \<^verbatim>\<open>find_imports\<close> yield no
  result, whatever the import table holds.
\<close>

theorem uninitialized_queries_empty:
  assumes "\<not> initialized pe"
  shows "get_imported_dlls pe = []
       \<and> get_imported_functions pe dll = []
       \<and> find_imports rm dll_default pe function_name_regexp dll_name_regexp case_sensitivity = []"
  using assms by (simp add: query_defs)

theorem uninitialized_queries_empty_witness:
  "\<not> initialized (kernel32_table\<lparr>initialized := False\<rparr>)
   \<and> pe_imports (kernel32_table\<lparr>initialized := False\<rparr>) \<noteq> []
   \<and> get_imported_dlls (kernel32_table\<lparr>initialized := False\<rparr>) = []
   \<and> get_imported_functions (kernel32_table\<lparr>initialized := False\<rparr>) ''kernel32.dll'' = []
   \<and> find_imports regex_match_subset False (kernel32_table\<lparr>initialized := False\<rparr>)
        ''^Create.*'' kernel32_pattern False = []"
  using uninitialized_queries_empty
    [of "kernel32_table\<lparr>initialized := False\<rparr>" "''kernel32.dll''" regex_match_subset False
        "''^Create.*''" kernel32_pattern False]
  by (simp add: kernel32_table_def)

text \<open>
  C1, as the claim states it, fails. Whatever default \<^verbatim>\<open>_find_imported_dlls\<close> has for
  its case sensitivity, one value of the flag of \<^verbatim>\<open>find_imports\<close> is not applied to the
  library pattern: with a case-sensitive default the search of the claim, whose flag
  is false, finds no library and returns nothing; with a case-insensitive default the
  case-sensitive search still finds \<^verbatim>\<open>kernel32.dll\<close> under \<^verbatim>\<open>^KERNEL32\.DLL$\<close>.
\<close>

theorem find_imports_flag_counterexample:
  "find_imports regex_match_subset True kernel32_table ''^Create.*'' kernel32_pattern False = []
   \<and> spec_search regex_match_subset kernel32_table ''^Create.*'' kernel32_pattern False
       = [''CreateFileA'', ''CreateMutexW'']
   \<and> find_imports regex_match_subset False kernel32_table ''^Create.*'' kernel32_pattern True
       = [''CreateFileA'', ''CreateMutexW'']
   \<and> spec_search regex_match_subset kernel32_table ''^Create.*'' kernel32_pattern True = []"
  by (simp add: query_defs spec_search_def kernel32_table_def kernel32_descriptor_def
        regex_subset_defs)

text \<open>
  C1, amended. On an initialized object \<^verbatim>\<open>find_imports\<close> applies its flag to the
  function pattern only: the libraries are those whose name matches the library
  pattern with the default case sensitivity of \<^verbatim>\<open>_find_imported_dlls\<close>, and of their
  entries the named ones that match the function pattern are returned, in order. With
  a case-insensitive default the search of the spec's example returns exactly
  \<^verbatim>\<open>CreateFileA\<close> and \<^verbatim>\<open>CreateMutexW\<close>.
\<close>

theorem find_imports_library_default:
  assumes "initialized pe"
  shows "find_imports rm dll_default pe function_name_regexp dll_name_regexp case_sensitivity =
           concat (map (\<lambda>l. filter (\<lambda>n. n \<noteq> [] \<and> rm (\<not> case_sensitivity) function_name_regexp n)
                                (map FunctionName (snd l)))
                       (filter (\<lambda>l. rm (\<not> dll_default) dll_name_regexp (NameStr (fst l)))
                               (pe_imports pe)))
         \<and> find_imports regex_match_subset False kernel32_table ''^Create.*'' kernel32_pattern False
             = [''CreateFileA'', ''CreateMutexW'']"
proof
  show "find_imports rm dll_default pe function_name_regexp dll_name_regexp case_sensitivity =
           concat (map (\<lambda>l. filter (\<lambda>n. n \<noteq> [] \<and> rm (\<not> case_sensitivity) function_name_regexp n)
                                (map FunctionName (snd l)))
                       (filter (\<lambda>l. rm (\<not> dll_default) dll_name_regexp (NameStr (fst l)))
                               (pe_imports pe)))"
    using assms
    by (simp add: find_imports_def find_imported_dlls_def matching_imports_loop_concat
          matching_dlls_loop_filter)
  show "find_imports regex_match_subset False kernel32_table ''^Create.*'' kernel32_pattern False
          = [''CreateFileA'', ''CreateMutexW'']"
    by (simp add: query_defs kernel32_table_def kernel32_descriptor_def regex_subset_defs)
qed

theorem find_imports_library_default_witness:
  "initialized kernel32_table
   \<and> find_imports regex_match_subset False kernel32_table ''.*Mutex.*'' ''kernel32.dll'' True
       = [''CreateMutexW'']"
  using find_imports_library_default
    [of kernel32_table regex_match_subset False "''.*Mutex.*''" "''kernel32.dll''" True]
  by (simp add: kernel32_table_def kernel32_descriptor_def regex_subset_defs)

subsection \<open>Evaluation on the concrete images\<close>

lemmas image_defs =
  image_collaborators_def spec_collaborators_def spec_reach_directory_def one_section_def
  spec_read_string_at_offset_def spec_read_ascii_string_def pe32_of_def file_at_def
  kernel32_descriptor_def

lemmas parser_defs =
  parse_imports_def fseek_def ftell_def fread_def descriptor_loop.simps lookup_loop.simps
  read_descriptor_def read_thunk_def decode_descriptor_def name_offset_def
  reach_lookup_table_def ilt_offset_def Let_def

text \<open>
  C3 fails on the code for the ordinals from \<^verbatim>\<open>0x8000\<close>: \<^verbatim>\<open>get_imported_functions\<close>
  keeps the low 15 bits of the raw value. The image \<open>ordinal_image\<close> imports the ordinal
  \<^verbatim>\<open>0x8000\<close> (32768) with the thunk \<^verbatim>\<open>0x80008000\<close>; the entry parsed has no name and the
  label synthesized for it is \<^verbatim>\<open>#0\<close>.
\<close>

theorem ordinal_32768_label:
  "map_option (\<lambda>(r, pe, lg). (r, map snd (pe_imports pe),
                 get_imported_functions (pe\<lparr>initialized := True\<rparr>) ''kernel32.dll''))
     (parse_imports image_collaborators (pe32_of ordinal_image))
   = Some (True,
           [[\<lparr>AddressOfData = 0x1049, Hint = 0x102, FunctionName = ''CreateFileA''\<rparr>,
             \<lparr>AddressOfData = 0x80008000, Hint = 0, FunctionName = []\<rparr>]],
           [''CreateFileA'', ''#0''])"
  by (simp add: image_defs parser_defs ordinal_image_def query_defs)

text \<open>
  What \<^verbatim>\<open>get_imported_functions\<close> prints for any entry without a name: the raw value
  modulo \<^verbatim>\<open>0x8000\<close>.
\<close>

lemma ordinal_label_low_15_bits:
  assumes "FunctionName e = []"
  shows "function_label e = CHR ''#'' # show_nat (unat (AddressOfData e) mod 32768)"
proof -
  have "AddressOfData e AND 0x7FFF = AddressOfData e AND mask 15"
    by (simp add: mask_eq_exp_minus_1)
  then have "unat (AddressOfData e AND 0x7FFF) = unat (AddressOfData e) mod 2 ^ 15"
    by (simp add: unsigned_take_bit_eq take_bit_eq_mod unat_mod_distrib flip: take_bit_eq_mask)
  with assms show ?thesis by (simp add: function_label_def)
qed

section \<open>Properties of the parser\<close>

subsection \<open>The loops and their iterations\<close>

lemma descriptor_loop_Continue:
  "read_descriptor env s = Continue s' \<Longrightarrow> descriptor_loop env s = descriptor_loop env s'"
  by (subst descriptor_loop.simps) simp

lemma descriptor_loop_Break:
  "read_descriptor env s = Break s' \<Longrightarrow> descriptor_loop env s = Some (Fallthrough s')"
  by (subst descriptor_loop.simps) simp

lemma descriptor_loop_Return:
  "read_descriptor env s = Return s' \<Longrightarrow> descriptor_loop env s = Some (Returned s')"
  by (subst descriptor_loop.simps) simp

lemma continue_n_descriptor_loop:
  "continue_n (read_descriptor env) k s = Some s' \<Longrightarrow>
   descriptor_loop env s = descriptor_loop env s'"
  by (induction k arbitrary: s) (auto split: control.splits simp: descriptor_loop_Continue)

lemma lookup_loop_Continue:
  "read_thunk env b s = Continue s' \<Longrightarrow> lookup_loop env b s = lookup_loop env b s'"
  by (subst lookup_loop.simps) simp

lemma lookup_loop_Break:
  "read_thunk env b s = Break s' \<Longrightarrow> lookup_loop env b s = Some (Fallthrough s')"
  by (subst lookup_loop.simps) simp

lemma lookup_loop_Return:
  "read_thunk env b s = Return s' \<Longrightarrow> lookup_loop env b s = Some (Returned s')"
  by (subst lookup_loop.simps) simp

lemma continue_n_lookup_loop:
  "continue_n (read_thunk env b) k s = Some s' \<Longrightarrow> lookup_loop env b s = lookup_loop env b s'"
  by (induction k arbitrary: s) (auto split: control.splits simp: lookup_loop_Continue)

subsection \<open>What one iteration does to the lists\<close>

lemma read_descriptor_Continue_libs:
  assumes "read_descriptor env s = Continue s'"
  shows "\<exists>iid. libs s' = libs s @ [(iid, [])]
               \<and> \<not> (OriginalFirstThunk iid = 0 \<and> FirstThunk iid = 0)"
    and "msgs s' = msgs s"
  using assms
  by (auto simp: read_descriptor_def decode_descriptor_def Let_def split: prod.splits if_splits)

lemma read_descriptor_stop_libs:
  assumes "read_descriptor env s = Break s' \<or> read_descriptor env s = Return s'"
  shows "libs s' = libs s" and "\<exists>m. msgs s' = msgs s @ m"
  using assms
  by (auto simp: read_descriptor_def Let_def split: prod.splits if_splits)

lemma read_thunk_Continue_second:
  assumes "read_thunk env b s = Continue s'"
  shows "\<exists>e. second s' = second s @ [e] \<and> AddressOfData e \<noteq> 0"
    and "lmsgs s' = lmsgs s"
  using assms
  by (auto simp: read_thunk_def Let_def split: prod.splits if_splits option.splits)

lemma read_thunk_stop_second:
  assumes "read_thunk env b s = Break s' \<or> read_thunk env b s = Return s'"
  shows "second s' = second s" and "\<exists>m. lmsgs s' = lmsgs s @ m"
  using assms
  by (auto simp: read_thunk_def Let_def split: prod.splits if_splits option.splits)


subsection \<open>Induction over the iterations of a loop that ends\<close>

lemma descriptor_loop_induct [consumes 1, case_names Continue Break Return]:
  assumes major: "descriptor_loop env s = Some r"
    and continue: "\<And>s s' r. read_descriptor env s = Continue s' \<Longrightarrow> P s' r \<Longrightarrow> P s r"
    and break: "\<And>s s'. read_descriptor env s = Break s' \<Longrightarrow> P s (Fallthrough s')"
    and return: "\<And>s s'. read_descriptor env s = Return s' \<Longrightarrow> P s (Returned s')"
  shows "P s r"
proof -
  have "e = env \<longrightarrow> P s r" if "descriptor_loop e s = Some r" for e
    using that
  proof (rule descriptor_loop.raw_induct[rotated, where P = "\<lambda>e s r. e = env \<longrightarrow> P s r"])
    fix loop e s r
    assume IH: "\<And>e s r. loop e s = Some r \<Longrightarrow> e = env \<longrightarrow> P s r"
      and step: "(case read_descriptor e s of
                    Continue s' \<Rightarrow> loop e s'
                  | Break s' \<Rightarrow> Some (Fallthrough s')
                  | Return s' \<Rightarrow> Some (Returned s')) = Some r"
    show "e = env \<longrightarrow> P s r"
    proof
      assume e: "e = env"
      show "P s r"
      proof (cases "read_descriptor env s")
        case (Continue s')
        with step e have "loop env s' = Some r" by simp
        with IH have "P s' r" by blast
        with Continue show ?thesis by (rule continue)
      next
        case (Break s')
        with step e have "r = Fallthrough s'" by simp
        with Break show ?thesis by (simp add: break)
      next
        case (Return s')
        with step e have "r = Returned s'" by simp
        with Return show ?thesis by (simp add: return)
      qed
    qed
  qed
  with major show ?thesis by blast
qed

lemma lookup_loop_induct [consumes 1, case_names Continue Break Return]:
  assumes major: "lookup_loop env b s = Some r"
    and continue: "\<And>s s' r. read_thunk env b s = Continue s' \<Longrightarrow> P s' r \<Longrightarrow> P s r"
    and break: "\<And>s s'. read_thunk env b s = Break s' \<Longrightarrow> P s (Fallthrough s')"
    and return: "\<And>s s'. read_thunk env b s = Return s' \<Longrightarrow> P s (Returned s')"
  shows "P s r"
proof -
  have "e = env \<and> c = b \<longrightarrow> P s r" if "lookup_loop e c s = Some r" for e c
    using that
  proof (rule lookup_loop.raw_induct[rotated, where P = "\<lambda>e c s r. e = env \<and> c = b \<longrightarrow> P s r"])
    fix loop e c s r
    assume IH: "\<And>e c s r. loop e c s = Some r \<Longrightarrow> e = env \<and> c = b \<longrightarrow> P s r"
      and step: "(case read_thunk e c s of
                    Continue s' \<Rightarrow> loop e c s'
                  | Break s' \<Rightarrow> Some (Fallthrough s')
                  | Return s' \<Rightarrow> Some (Returned s')) = Some r"
    show "e = env \<and> c = b \<longrightarrow> P s r"
    proof
      assume e: "e = env \<and> c = b"
      show "P s r"
      proof (cases "read_thunk env b s")
        case (Continue s')
        with step e have "loop env b s' = Some r" by simp
        with IH have "P s' r" by blast
        with Continue show ?thesis by (rule continue)
      next
        case (Break s')
        with step e have "r = Fallthrough s'" by simp
        with Break show ?thesis by (simp add: break)
      next
        case (Return s')
        with step e have "r = Returned s'" by simp
        with Return show ?thesis by (simp add: return)
      qed
    qed
  qed
  with major show ?thesis by blast
qed

subsection \<open>What the loops do to the lists\<close>

lemma descriptor_loop_libs:
  assumes "descriptor_loop env s = Some r"
  shows "\<exists>new. libs (exit_state r) = libs s @ new
             \<and> (\<forall>l\<in>set new. \<not> (OriginalFirstThunk (fst l) = 0 \<and> FirstThunk (fst l) = 0)
                             \<and> snd l = [])"
  using assms
proof (induction rule: descriptor_loop_induct)
  case (Continue s s' r)
  from Continue(2) obtain new where new:
    "libs (exit_state r) = libs s' @ new"
    "\<forall>l\<in>set new. \<not> (OriginalFirstThunk (fst l) = 0 \<and> FirstThunk (fst l) = 0) \<and> snd l = []"
    by blast
  from read_descriptor_Continue_libs(1)[OF Continue(1)] obtain iid where iid:
    "libs s' = libs s @ [(iid, [])]" "\<not> (OriginalFirstThunk iid = 0 \<and> FirstThunk iid = 0)"
    by blast
  show ?case
    using new iid by (intro exI[of _ "(iid, []) # new"]) simp
next
  case (Break s s')
  with read_descriptor_stop_libs(1)[of env s s'] show ?case by simp
next
  case (Return s s')
  with read_descriptor_stop_libs(1)[of env s s'] show ?case by simp
qed

lemma lookup_loop_second:
  assumes "lookup_loop env b s = Some r"
  shows "\<exists>new. second (exit_state r) = second s @ new \<and> (\<forall>e\<in>set new. AddressOfData e \<noteq> 0)"
  using assms
proof (induction rule: lookup_loop_induct)
  case (Continue s s' r)
  from Continue(2) obtain new where new:
    "second (exit_state r) = second s' @ new" "\<forall>e\<in>set new. AddressOfData e \<noteq> 0"
    by blast
  from read_thunk_Continue_second(1)[OF Continue(1)] obtain e where e:
    "second s' = second s @ [e]" "AddressOfData e \<noteq> 0"
    by blast
  show ?case
    using new e by (intro exI[of _ "e # new"]) simp
next
  case (Break s s')
  with read_thunk_stop_second(1)[of env b s s'] show ?case by simp
next
  case (Return s s')
  with read_thunk_stop_second(1)[of env b s s'] show ?case by simp
qed

lemma lookup_loop_lmsgs:
  assumes "lookup_loop env b s = Some r"
  shows "\<exists>m. lmsgs (exit_state r) = lmsgs s @ m"
  using assms
proof (induction rule: lookup_loop_induct)
  case (Continue s s' r)
  with read_thunk_Continue_second(2)[OF Continue(1)] show ?case by simp
next
  case (Break s s')
  with read_thunk_stop_second(2)[of env b s s'] show ?case by simp
next
  case (Return s s')
  with read_thunk_stop_second(2)[of env b s s'] show ?case by simp
qed

text \<open>
  One step of the loop over the libraries when the function returns from it: the
  table is not reached, or the inner loop returns.
\<close>

lemma lookup_tables_unreachable:
  "reach_lookup_table env (fst it) f = None \<Longrightarrow>
   lookup_tables env b done (it # rest) f lg =
     Some \<lparr>fh = f, libs = done @ it # rest,
           msgs = lg @ [Error ''Could not reach an IMPORT_LOOKUP_TABLE.'']\<rparr>"
  by simp


lemma lookup_tables_invariant:
  assumes "lookup_tables env b done todo f lg = Some s'"
  shows "map fst (libs s') = map fst (done @ todo)
       \<and> ((\<forall>l\<in>set (done @ todo). \<forall>e\<in>set (snd l). AddressOfData e \<noteq> 0)
            \<longrightarrow> (\<forall>l\<in>set (libs s'). \<forall>e\<in>set (snd l). AddressOfData e \<noteq> 0))
       \<and> (\<exists>m. msgs s' = lg @ m)"
  using assms
proof (induction env b "done" todo f lg rule: lookup_tables.induct)
  case (1 env b "done" f lg)
  then show ?case by auto
next
  case (2 env b "done" it rest f lg)
  show ?case
  proof (cases "reach_lookup_table env (fst it) f")
    case None
    from 2(2) show ?thesis unfolding lookup_tables_unreachable[OF None] by fastforce
  next
    case reach: (Some f1)
    show ?thesis
    proof (cases "lookup_loop env b \<lparr>lfh = f1, second = snd it, lmsgs = lg\<rparr>")
      case None
      with 2(2) reach show ?thesis by simp
    next
      case loop: (Some r)
      from lookup_loop_second[OF loop] obtain new where new:
        "second (exit_state r) = snd it @ new" "\<forall>e\<in>set new. AddressOfData e \<noteq> 0"
        by auto
      from lookup_loop_lmsgs[OF loop] obtain m where m: "lmsgs (exit_state r) = lg @ m"
        by auto
      show ?thesis
      proof (cases r)
        case (Fallthrough t)
        with 2(2) reach loop
        have rec: "lookup_tables env b (done @ [(fst it, second t)]) rest (lfh t) (lmsgs t) = Some s'"
          by simp
        from 2(1)[OF reach loop Fallthrough rec] new m Fallthrough
        show ?thesis by auto
      next
        case (Returned t)
        with 2(2) reach loop
        have "s' = \<lparr>fh = lfh t, libs = done @ (fst it, second t) # rest, msgs = lmsgs t\<rparr>"
          by simp
        with new m Returned show ?thesis by auto
      qed
    qed
  qed
qed

subsection \<open>The parser as a whole\<close>


lemma parse_imports_invariant:
  assumes "parse_imports env pe = Some (r, pe', lg)" and "pe_imports pe = []"
  shows "(\<forall>l\<in>set (pe_imports pe'). \<not> (OriginalFirstThunk (fst l) = 0 \<and> FirstThunk (fst l) = 0))
       \<and> (\<forall>l\<in>set (pe_imports pe'). \<forall>e\<in>set (snd l). AddressOfData e \<noteq> 0)"
proof (cases "ioh pe")
  case None
  with assms show ?thesis by (auto simp: parse_imports_def)
next
  case magic: (Some magic)
  show ?thesis
  proof (cases "file_handle pe")
    case None
    with assms magic show ?thesis by (auto simp: parse_imports_def)
  next
    case handle: (Some f)
    obtain ok f0 where reach: "reach_directory env f = (ok, f0)" by force
    show ?thesis
    proof (cases ok)
      case False
      with assms magic handle reach show ?thesis by (auto simp: parse_imports_def)
    next
      case True
      let ?s0 = "\<lparr>fh = f0, libs = pe_imports pe, msgs = []\<rparr>"
      show ?thesis
      proof (cases "descriptor_loop env ?s0")
        case None
        with assms magic handle reach True show ?thesis by (simp add: parse_imports_def)
      next
        case loop: (Some d)
        from descriptor_loop_libs[OF loop] assms(2)
        have d: "\<forall>l\<in>set (libs (exit_state d)).
                   \<not> (OriginalFirstThunk (fst l) = 0 \<and> FirstThunk (fst l) = 0) \<and> snd l = []"
          by auto
        show ?thesis
        proof (cases d)
          case (Returned s)
          with assms magic handle reach True loop have "pe_imports pe' = libs s"
            by (auto simp: parse_imports_def)
          with d Returned show ?thesis by auto
        next
          case (Fallthrough s)
          show ?thesis
          proof (cases "lookup_tables env (magic = pe32plus_magic env) [] (libs s) (fh s) (msgs s)")
            case None
            with assms magic handle reach True loop Fallthrough show ?thesis
              by (simp add: parse_imports_def)
          next
            case tables: (Some s')
            with assms magic handle reach True loop Fallthrough have "pe_imports pe' = libs s'"
              by (auto simp: parse_imports_def)
            moreover from lookup_tables_invariant[OF tables]
            have "map fst (libs s') = map fst (libs s)"
              and "(\<forall>l\<in>set (libs s). \<forall>e\<in>set (snd l). AddressOfData e \<noteq> 0)
                    \<longrightarrow> (\<forall>l\<in>set (libs s'). \<forall>e\<in>set (snd l). AddressOfData e \<noteq> 0)"
              by auto
            moreover from d Fallthrough
            have "\<forall>l\<in>set (libs s). \<forall>e\<in>set (snd l). AddressOfData e \<noteq> 0"
              and "\<forall>i\<in>set (map fst (libs s)). \<not> (OriginalFirstThunk i = 0 \<and> FirstThunk i = 0)"
              by auto
            ultimately show ?thesis
              by (metis (no_types, lifting) image_eqI list.set_map)
          qed
        qed
      qed
    qed
  qed
qed

subsection \<open>The file handle\<close>



subsection \<open>One iteration, case by case\<close>


lemma read_descriptor_sentinel:
  assumes "fread 20 (fh s) = (bs, f1)" and "length bs = 20"
    and "OriginalFirstThunk (decode_descriptor bs) = 0"
    and "FirstThunk (decode_descriptor bs) = 0"
  shows "read_descriptor env s = Break (s\<lparr>fh := f1\<rparr>)"
  using assms by (simp add: read_descriptor_def)

lemma read_descriptor_name_unreadable:
  assumes "fread 20 (fh s) = (bs, f1)" and "length bs = 20"
    and "\<not> (OriginalFirstThunk (decode_descriptor bs) = 0 \<and> FirstThunk (decode_descriptor bs) = 0)"
    and "read_string_at_offset env f1 (name_offset env (decode_descriptor bs)) = (False, str, f2)"
  shows "read_descriptor env s =
           (if libs s \<noteq> []
            then Break (s\<lparr>fh := f2, msgs := msgs s @ [Warning ''Could not read an import's name.'']\<rparr>)
            else Return (s\<lparr>fh := f2, msgs := msgs s @ [Error ''Could not read an import's name.'']\<rparr>))"
  using assms by (auto simp: read_descriptor_def Let_def)

lemma read_thunk_sentinel:
  assumes "fread (if b then 8 else 4) (lfh s) = (bs, f1)"
    and "length bs = (if b then 8 else 4)"
    and "(le_word bs :: 64 word) = 0"
  shows "read_thunk env b s = Break (s\<lparr>lfh := f1\<rparr>)"
  using assms by (cases b) (simp_all add: read_thunk_def Let_def)

lemma read_thunk_ordinal:
  assumes "fread (if b then 8 else 4) (lfh s) = (bs, f1)"
    and "length bs = (if b then 8 else 4)"
    and "(le_word bs :: 64 word) AND (if b then 0x8000000000000000 else 0x80000000) \<noteq> 0"
  shows "read_thunk env b s =
           Continue (s\<lparr>lfh := f1,
                       second := second s @
                         [\<lparr>AddressOfData = le_word bs, Hint = 0, FunctionName = []\<rparr>]\<rparr>)"
  using assms by (cases b) (auto simp: read_thunk_def Let_def)

lemma read_thunk_table_unreachable:
  assumes "fread (if b then 8 else 4) (lfh s) = (bs, f1)"
    and "length bs = (if b then 8 else 4)"
    and "(le_word bs :: 64 word) \<noteq> 0"
    and "(le_word bs :: 64 word) AND (if b then 0x8000000000000000 else 0x80000000) = 0"
    and "rva_to_offset env (le_word bs AND 0x7FFFFFFF) = 0"
  shows "read_thunk env b s =
           Return (s\<lparr>lfh := f1,
                     lmsgs := lmsgs s @ [Error ''Could not reach the HINT/NAME table.'']\<rparr>)"
  using assms by (cases b) (simp_all add: read_thunk_def Let_def)


lemma continue_n_read_descriptor_libs:
  "continue_n (read_descriptor env) k s = Some s' \<Longrightarrow>
   length (libs s') = length (libs s) + k \<and> msgs s' = msgs s"
proof (induction k arbitrary: s)
  case 0
  then show ?case by simp
next
  case (Suc k)
  then obtain s1 where s1: "read_descriptor env s = Continue s1"
    and rest: "continue_n (read_descriptor env) k s1 = Some s'"
    by (auto split: control.splits)
  from read_descriptor_Continue_libs[OF s1] Suc.IH[OF rest] show ?case by auto
qed

text \<open>
  C6. A descriptor whose \<^verbatim>\<open>OriginalFirstThunk\<close> and \<^verbatim>\<open>FirstThunk\<close> are both 0 ends
  the descriptor loop: when it is read after \<open>k\<close> accepted descriptors, the loop is left
  with the libraries accepted so far and nothing is appended for it. And no library of
  the table that \<^verbatim>\<open>_parse_imports\<close> builds has such a descriptor.
\<close>

theorem descriptor_sentinel_ends_scan:
  "(continue_n (read_descriptor env) k s0 = Some s
      \<and> fread 20 (fh s) = (bs, f1) \<and> length bs = 20
      \<and> OriginalFirstThunk (decode_descriptor bs) = 0
      \<and> FirstThunk (decode_descriptor bs) = 0
     \<longrightarrow> descriptor_loop env s0 = Some (Fallthrough (s\<lparr>fh := f1\<rparr>)))
   \<and> (pe_imports pe = [] \<and> parse_imports env pe = Some (r, pe', lg)
     \<longrightarrow> (\<forall>l\<in>set (pe_imports pe').
            \<not> (OriginalFirstThunk (fst l) = 0 \<and> FirstThunk (fst l) = 0)))"
proof (intro conjI impI)
  assume a: "continue_n (read_descriptor env) k s0 = Some s
      \<and> fread 20 (fh s) = (bs, f1) \<and> length bs = 20
      \<and> OriginalFirstThunk (decode_descriptor bs) = 0
      \<and> FirstThunk (decode_descriptor bs) = 0"
  then have "read_descriptor env s = Break (s\<lparr>fh := f1\<rparr>)"
    by (simp add: read_descriptor_sentinel)
  then have "descriptor_loop env s = Some (Fallthrough (s\<lparr>fh := f1\<rparr>))"
    by (rule descriptor_loop_Break)
  moreover from a have "continue_n (read_descriptor env) k s0 = Some s" by simp
  then have "descriptor_loop env s0 = descriptor_loop env s"
    by (rule continue_n_descriptor_loop)
  ultimately show "descriptor_loop env s0 = Some (Fallthrough (s\<lparr>fh := f1\<rparr>))"
    by simp
next
  assume "pe_imports pe = [] \<and> parse_imports env pe = Some (r, pe', lg)"
  then show "\<forall>l\<in>set (pe_imports pe').
               \<not> (OriginalFirstThunk (fst l) = 0 \<and> FirstThunk (fst l) = 0)"
    using parse_imports_invariant[of env pe r pe' lg] by blast
qed

theorem descriptor_sentinel_ends_scan_witness:
  "continue_n (read_descriptor image_collaborators) (Suc 0)
       \<lparr>fh = file_at ordinal_image 4, libs = [], msgs = []\<rparr>
     = Some \<lparr>fh = file_at ordinal_image 24, libs = [(kernel32_descriptor, [])], msgs = []\<rparr>
   \<and> fread 20 (file_at ordinal_image 24)
     = (take 20 (drop 24 ordinal_image), file_at ordinal_image 44)
   \<and> descriptor_loop image_collaborators \<lparr>fh = file_at ordinal_image 4, libs = [], msgs = []\<rparr>
     = Some (Fallthrough
              \<lparr>fh = file_at ordinal_image 44, libs = [(kernel32_descriptor, [])], msgs = []\<rparr>)
   \<and> pe_imports (pe32_of ordinal_image) = []
   \<and> map_option (\<lambda>(r, pe', lg). map (\<lambda>l. (OriginalFirstThunk (fst l), FirstThunk (fst l)))
                                    (pe_imports pe'))
        (parse_imports image_collaborators (pe32_of ordinal_image))
     = Some [(0x102C, 0x102C)]"
proof -
  let ?s0 = "\<lparr>fh = file_at ordinal_image 4, libs = [], msgs = []\<rparr>"
  let ?s1 = "\<lparr>fh = file_at ordinal_image 24, libs = [(kernel32_descriptor, [])], msgs = []\<rparr>"
  let ?pe' = "(pe32_of ordinal_image)
                \<lparr>file_handle := Some (file_at ordinal_image 56),
                 pe_imports :=
                   [(kernel32_descriptor,
                     [\<lparr>AddressOfData = 0x1049, Hint = 0x102, FunctionName = ''CreateFileA''\<rparr>,
                      \<lparr>AddressOfData = 0x80008000, Hint = 0, FunctionName = []\<rparr>])]\<rparr>"
  have h1: "continue_n (read_descriptor image_collaborators) (Suc 0) ?s0 = Some ?s1"
    by (simp add: image_defs parser_defs ordinal_image_def)
  have h2: "fread 20 (fh ?s1) = (take 20 (drop 24 ordinal_image), file_at ordinal_image 44)"
    by (simp add: image_defs parser_defs ordinal_image_def)
  have h3: "length (take 20 (drop 24 ordinal_image)) = 20
            \<and> OriginalFirstThunk (decode_descriptor (take 20 (drop 24 ordinal_image))) = 0
            \<and> FirstThunk (decode_descriptor (take 20 (drop 24 ordinal_image))) = 0"
    by (simp add: decode_descriptor_def ordinal_image_def)
  have h4: "pe_imports (pe32_of ordinal_image) = []"
    by (simp add: pe32_of_def)
  have h5: "parse_imports image_collaborators (pe32_of ordinal_image) = Some (True, ?pe', [])"
    by (simp add: image_defs parser_defs ordinal_image_def)
  note t = descriptor_sentinel_ends_scan
    [where env = image_collaborators and k = "Suc 0" and ?s0.0 = ?s0 and s = ?s1
       and bs = "take 20 (drop 24 ordinal_image)" and ?f1.0 = "file_at ordinal_image 44"
       and pe = "pe32_of ordinal_image" and r = True and pe' = ?pe' and lg = "[]"]
  from t h1 h2 h3
  have "descriptor_loop image_collaborators ?s0 = Some (Fallthrough (?s1\<lparr>fh := file_at ordinal_image 44\<rparr>))"
    by blast
  moreover from t h4 h5
  have "\<forall>l\<in>set (pe_imports ?pe'). \<not> (OriginalFirstThunk (fst l) = 0 \<and> FirstThunk (fst l) = 0)"
    by blast
  ultimately show ?thesis
    using h1 h2 h4 h5 by (simp add: kernel32_descriptor_def)
qed

text \<open>
  C7. A thunk whose raw value is 0 ends the entries of its library: when it is read
  after \<open>k\<close> entries, the inner loop is left with the entries read so far and nothing
  is appended for it. And no entry of the table that \<^verbatim>\<open>_parse_imports\<close> builds has the
  raw value 0.
\<close>

theorem thunk_sentinel_ends_entries:
  "(continue_n (read_thunk env b) k s0 = Some s
      \<and> fread (if b then 8 else 4) (lfh s) = (bs, f1) \<and> length bs = (if b then 8 else 4)
      \<and> (le_word bs :: 64 word) = 0
     \<longrightarrow> lookup_loop env b s0 = Some (Fallthrough (s\<lparr>lfh := f1\<rparr>)))
   \<and> (pe_imports pe = [] \<and> parse_imports env pe = Some (r, pe', lg)
     \<longrightarrow> (\<forall>l\<in>set (pe_imports pe'). \<forall>e\<in>set (snd l). AddressOfData e \<noteq> 0))"
proof (intro conjI impI)
  assume a: "continue_n (read_thunk env b) k s0 = Some s
      \<and> fread (if b then 8 else 4) (lfh s) = (bs, f1) \<and> length bs = (if b then 8 else 4)
      \<and> (le_word bs :: 64 word) = 0"
  then have "read_thunk env b s = Break (s\<lparr>lfh := f1\<rparr>)"
    by (simp add: read_thunk_sentinel)
  then have "lookup_loop env b s = Some (Fallthrough (s\<lparr>lfh := f1\<rparr>))"
    by (rule lookup_loop_Break)
  moreover from a have "continue_n (read_thunk env b) k s0 = Some s" by simp
  then have "lookup_loop env b s0 = lookup_loop env b s"
    by (rule continue_n_lookup_loop)
  ultimately show "lookup_loop env b s0 = Some (Fallthrough (s\<lparr>lfh := f1\<rparr>))"
    by simp
next
  assume "pe_imports pe = [] \<and> parse_imports env pe = Some (r, pe', lg)"
  then show "\<forall>l\<in>set (pe_imports pe'). \<forall>e\<in>set (snd l). AddressOfData e \<noteq> 0"
    using parse_imports_invariant[of env pe r pe' lg] by blast
qed

theorem thunk_sentinel_ends_entries_witness:
  "continue_n (read_thunk image_collaborators False) (Suc (Suc 0))
       \<lparr>lfh = file_at ordinal_image 44, second = [], lmsgs = []\<rparr>
     = Some \<lparr>lfh = file_at ordinal_image 52,
             second = [\<lparr>AddressOfData = 0x1049, Hint = 0x102, FunctionName = ''CreateFileA''\<rparr>,
                       \<lparr>AddressOfData = 0x80008000, Hint = 0, FunctionName = []\<rparr>],
             lmsgs = []\<rparr>
   \<and> fread 4 (file_at ordinal_image 52) = (take 4 (drop 52 ordinal_image), file_at ordinal_image 56)
   \<and> lookup_loop image_collaborators False \<lparr>lfh = file_at ordinal_image 44, second = [], lmsgs = []\<rparr>
     = Some (Fallthrough
              \<lparr>lfh = file_at ordinal_image 56,
               second = [\<lparr>AddressOfData = 0x1049, Hint = 0x102, FunctionName = ''CreateFileA''\<rparr>,
                         \<lparr>AddressOfData = 0x80008000, Hint = 0, FunctionName = []\<rparr>],
               lmsgs = []\<rparr>)
   \<and> pe_imports (pe32_of ordinal_image) = []
   \<and> map_option (\<lambda>(r, pe', lg). map (\<lambda>l. map AddressOfData (snd l)) (pe_imports pe'))
        (parse_imports image_collaborators (pe32_of ordinal_image))
     = Some [[0x1049, 0x80008000]]"
proof -
  let ?s0 = "\<lparr>lfh = file_at ordinal_image 44, second = [], lmsgs = []\<rparr>"
  let ?s2 = "\<lparr>lfh = file_at ordinal_image 52,
               second = [\<lparr>AddressOfData = 0x1049, Hint = 0x102, FunctionName = ''CreateFileA''\<rparr>,
                         \<lparr>AddressOfData = 0x80008000, Hint = 0, FunctionName = []\<rparr>],
               lmsgs = []\<rparr>"
  let ?pe' = "(pe32_of ordinal_image)
                \<lparr>file_handle := Some (file_at ordinal_image 56),
                 pe_imports :=
                   [(kernel32_descriptor,
                     [\<lparr>AddressOfData = 0x1049, Hint = 0x102, FunctionName = ''CreateFileA''\<rparr>,
                      \<lparr>AddressOfData = 0x80008000, Hint = 0, FunctionName = []\<rparr>])]\<rparr>"
  have h1: "continue_n (read_thunk image_collaborators False) (Suc (Suc 0)) ?s0 = Some ?s2"
    by (simp add: image_defs parser_defs ordinal_image_def)
  have h2: "fread (if False then 8 else 4) (lfh ?s2)
              = (take 4 (drop 52 ordinal_image), file_at ordinal_image 56)"
    by (simp add: image_defs parser_defs ordinal_image_def)
  have h3: "length (take 4 (drop 52 ordinal_image)) = (if False then 8 else 4)
            \<and> (le_word (take 4 (drop 52 ordinal_image)) :: 64 word) = 0"
    by (simp add: ordinal_image_def)
  have h4: "pe_imports (pe32_of ordinal_image) = []"
    by (simp add: pe32_of_def)
  have h5: "parse_imports image_collaborators (pe32_of ordinal_image) = Some (True, ?pe', [])"
    by (simp add: image_defs parser_defs ordinal_image_def)
  note t = thunk_sentinel_ends_entries
    [where env = image_collaborators and b = False and k = "Suc (Suc 0)" and ?s0.0 = ?s0
       and s = ?s2 and bs = "take 4 (drop 52 ordinal_image)" and ?f1.0 = "file_at ordinal_image 56"
       and pe = "pe32_of ordinal_image" and r = True and pe' = ?pe' and lg = "[]"]
  from t h1 h2 h3
  have "lookup_loop image_collaborators False ?s0
          = Some (Fallthrough (?s2\<lparr>lfh := file_at ordinal_image 56\<rparr>))"
    by blast
  moreover from t h4 h5
  have "\<forall>l\<in>set (pe_imports ?pe'). \<forall>e\<in>set (snd l). AddressOfData e \<noteq> 0"
    by blast
  ultimately show ?thesis
    using h1 h2 h4 h5 by simp
qed

lemma read_descriptor_accepted:
  assumes "fread 20 (fh s) = (bs, f1)" and "length bs = 20"
    and "\<not> (OriginalFirstThunk (decode_descriptor bs) = 0 \<and> FirstThunk (decode_descriptor bs) = 0)"
    and "read_string_at_offset env f1 (name_offset env (decode_descriptor bs)) = (True, str, f2)"
  shows "read_descriptor env s =
           Continue (s\<lparr>fh := f2, libs := libs s @ [((decode_descriptor bs)\<lparr>NameStr := str\<rparr>, [])]\<rparr>)"
  using assms by (auto simp: read_descriptor_def Let_def)








text \<open>
  C8. An address that \<^verbatim>\<open>_rva_to_offset\<close> does not translate is used as a file offset
  for the library name only: when the name can be read at the offset equal to the
  \<^verbatim>\<open>Name\<close> field, the library is accepted with that name. For the lookup table
  (\<^verbatim>\<open>OriginalFirstThunk\<close>, or \<^verbatim>\<open>FirstThunk\<close> when that is 0) and for the Hint/Name entry
  of a thunk there is no such fallback: an error is printed and the function returns,
  without a read at that address.
\<close>

theorem offset_fallback_only_for_name:
  "(fread 20 (fh s) = (bs, f1) \<and> length bs = 20
      \<and> \<not> (OriginalFirstThunk (decode_descriptor bs) = 0 \<and> FirstThunk (decode_descriptor bs) = 0)
      \<and> rva_to_offset env (ucast (Name (decode_descriptor bs))) = 0
      \<and> read_string_at_offset env f1 (Name (decode_descriptor bs)) = (True, str, f2)
     \<longrightarrow> read_descriptor env s =
           Continue (s\<lparr>fh := f2,
                       libs := libs s @ [((decode_descriptor bs)\<lparr>NameStr := str\<rparr>, [])]\<rparr>))
   \<and> ((if OriginalFirstThunk (fst it) \<noteq> 0
        then rva_to_offset env (ucast (OriginalFirstThunk (fst it)))
        else rva_to_offset env (ucast (FirstThunk (fst it)))) = 0
     \<longrightarrow> lookup_tables env b before (it # rest) f lg =
           Some \<lparr>fh = f, libs = before @ it # rest,
                 msgs = lg @ [Error ''Could not reach an IMPORT_LOOKUP_TABLE.'']\<rparr>)
   \<and> (fread (if b then 8 else 4) (lfh t) = (tb, t1) \<and> length tb = (if b then 8 else 4)
      \<and> (le_word tb :: 64 word) \<noteq> 0
      \<and> (le_word tb :: 64 word) AND (if b then 0x8000000000000000 else 0x80000000) = 0
      \<and> rva_to_offset env (le_word tb AND 0x7FFFFFFF) = 0
     \<longrightarrow> lookup_loop env b t =
           Some (Returned (t\<lparr>lfh := t1,
                            lmsgs := lmsgs t @ [Error ''Could not reach the HINT/NAME table.'']\<rparr>)))"
proof (intro conjI impI)
  assume a: "fread 20 (fh s) = (bs, f1) \<and> length bs = 20
      \<and> \<not> (OriginalFirstThunk (decode_descriptor bs) = 0 \<and> FirstThunk (decode_descriptor bs) = 0)
      \<and> rva_to_offset env (ucast (Name (decode_descriptor bs))) = 0
      \<and> read_string_at_offset env f1 (Name (decode_descriptor bs)) = (True, str, f2)"
  then have n: "name_offset env (decode_descriptor bs) = Name (decode_descriptor bs)"
    by (simp add: name_offset_def)
  from a have a1: "fread 20 (fh s) = (bs, f1)" and a2: "length bs = 20"
    and a3: "\<not> (OriginalFirstThunk (decode_descriptor bs) = 0
                 \<and> FirstThunk (decode_descriptor bs) = 0)"
    and a4: "read_string_at_offset env f1 (name_offset env (decode_descriptor bs)) = (True, str, f2)"
    unfolding n by blast+
  show "read_descriptor env s =
           Continue (s\<lparr>fh := f2,
                       libs := libs s @ [((decode_descriptor bs)\<lparr>NameStr := str\<rparr>, [])]\<rparr>)"
    by (rule read_descriptor_accepted[OF a1 a2 a3 a4])
next
  assume "(if OriginalFirstThunk (fst it) \<noteq> 0
        then rva_to_offset env (ucast (OriginalFirstThunk (fst it)))
        else rva_to_offset env (ucast (FirstThunk (fst it)))) = 0"
  then have "reach_lookup_table env (fst it) f = None"
    by (simp add: reach_lookup_table_def ilt_offset_def)
  then show "lookup_tables env b before (it # rest) f lg =
           Some \<lparr>fh = f, libs = before @ it # rest,
                 msgs = lg @ [Error ''Could not reach an IMPORT_LOOKUP_TABLE.'']\<rparr>"
    by (rule lookup_tables_unreachable)
next
  assume "fread (if b then 8 else 4) (lfh t) = (tb, t1) \<and> length tb = (if b then 8 else 4)
      \<and> (le_word tb :: 64 word) \<noteq> 0
      \<and> (le_word tb :: 64 word) AND (if b then 0x8000000000000000 else 0x80000000) = 0
      \<and> rva_to_offset env (le_word tb AND 0x7FFFFFFF) = 0"
  then have "read_thunk env b t =
           Return (t\<lparr>lfh := t1,
                     lmsgs := lmsgs t @ [Error ''Could not reach the HINT/NAME table.'']\<rparr>)"
    by (intro read_thunk_table_unreachable) blast+
  then show "lookup_loop env b t =
           Some (Returned (t\<lparr>lfh := t1,
                            lmsgs := lmsgs t @ [Error ''Could not reach the HINT/NAME table.'']\<rparr>))"
    by (rule lookup_loop_Return)
qed

theorem offset_fallback_only_for_name_witness:
  "Name (decode_descriptor (take 20 (drop 4 direct_name_image))) = 0x3C
   \<and> rva_to_offset image_collaborators 0x3C = 0
   \<and> read_string_at_offset image_collaborators (file_at direct_name_image 24) 0x3C
       = (True, ''kernel32.dll'', file_at direct_name_image 24)
   \<and> read_descriptor image_collaborators \<lparr>fh = file_at direct_name_image 4, libs = [], msgs = []\<rparr>
       = Continue \<lparr>fh = file_at direct_name_image 24,
                   libs = [(kernel32_descriptor\<lparr>Name := 0x3C\<rparr>, [])], msgs = []\<rparr>
   \<and> OriginalFirstThunk (decode_descriptor (take 20 (drop 4 unmapped_table_image))) = 0x5000
   \<and> rva_to_offset image_collaborators 0x5000 = 0
   \<and> lookup_tables image_collaborators False []
        [(kernel32_descriptor\<lparr>OriginalFirstThunk := 0x5000\<rparr>, [])]
        (file_at unmapped_table_image 44) []
       = Some \<lparr>fh = file_at unmapped_table_image 44,
               libs = [(kernel32_descriptor\<lparr>OriginalFirstThunk := 0x5000\<rparr>, [])],
               msgs = [Error ''Could not reach an IMPORT_LOOKUP_TABLE.'']\<rparr>
   \<and> (le_word (take 4 (drop 44 unmapped_hint_image)) :: 64 word) = 0x5000
   \<and> lookup_loop image_collaborators False
        \<lparr>lfh = file_at unmapped_hint_image 44, second = [], lmsgs = []\<rparr>
       = Some (Returned \<lparr>lfh = file_at unmapped_hint_image 48, second = [],
                         lmsgs = [Error ''Could not reach the HINT/NAME table.'']\<rparr>)"
proof -
  let ?env = image_collaborators
  let ?s = "\<lparr>fh = file_at direct_name_image 4, libs = [], msgs = []\<rparr>"
  let ?bs = "take 20 (drop 4 direct_name_image)"
  let ?it = "(kernel32_descriptor\<lparr>OriginalFirstThunk := 0x5000\<rparr>, [] :: import_lookup_table list)"
  let ?t = "\<lparr>lfh = file_at unmapped_hint_image 44, second = [], lmsgs = []\<rparr>"
  let ?tb = "take 4 (drop 44 unmapped_hint_image)"
  note t = offset_fallback_only_for_name
    [where env = ?env and s = ?s and bs = ?bs and ?f1.0 = "file_at direct_name_image 24"
       and str = "''kernel32.dll''" and ?f2.0 = "file_at direct_name_image 24"
       and it = ?it and b = False and before = "[]" and rest = "[]"
       and f = "file_at unmapped_table_image 44" and lg = "[]"
       and t = ?t and tb = ?tb and ?t1.0 = "file_at unmapped_hint_image 48"]
  have d: "decode_descriptor ?bs = kernel32_descriptor\<lparr>Name := 0x3C, NameStr := []\<rparr>"
    by (simp add: decode_descriptor_def direct_name_image_def kernel32_descriptor_def)
  have n1: "Name (decode_descriptor ?bs) = 0x3C"
    unfolding d by simp
  have n2: "rva_to_offset ?env 0x3C = 0"
    by (simp add: image_defs)
  have n3: "read_string_at_offset ?env (file_at direct_name_image 24) 0x3C
              = (True, ''kernel32.dll'', file_at direct_name_image 24)"
    by (simp add: image_defs parser_defs direct_name_image_def)
  have a1: "fread 20 (fh ?s) = (?bs, file_at direct_name_image 24) \<and> length ?bs = 20
      \<and> \<not> (OriginalFirstThunk (decode_descriptor ?bs) = 0 \<and> FirstThunk (decode_descriptor ?bs) = 0)
      \<and> rva_to_offset ?env (ucast (Name (decode_descriptor ?bs))) = 0
      \<and> read_string_at_offset ?env (file_at direct_name_image 24) (Name (decode_descriptor ?bs))
          = (True, ''kernel32.dll'', file_at direct_name_image 24)"
    unfolding d using n2 n3
    by (simp add: file_at_def fread_def direct_name_image_def kernel32_descriptor_def)
  from t a1 have c1: "read_descriptor ?env ?s =
       Continue (?s\<lparr>fh := file_at direct_name_image 24,
                    libs := libs ?s @ [((decode_descriptor ?bs)\<lparr>NameStr := ''kernel32.dll''\<rparr>, [])]\<rparr>)"
    by blast
  have c1': "read_descriptor ?env ?s
       = Continue \<lparr>fh = file_at direct_name_image 24,
                   libs = [(kernel32_descriptor\<lparr>Name := 0x3C\<rparr>, [])], msgs = []\<rparr>"
    unfolding c1 d by (simp add: kernel32_descriptor_def)
  have m1: "OriginalFirstThunk (decode_descriptor (take 20 (drop 4 unmapped_table_image))) = 0x5000"
    by (simp add: decode_descriptor_def unmapped_table_image_def)
  have m2: "rva_to_offset ?env 0x5000 = 0"
    by (simp add: image_defs)
  have a2: "(if OriginalFirstThunk (fst ?it) \<noteq> 0
        then rva_to_offset ?env (ucast (OriginalFirstThunk (fst ?it)))
        else rva_to_offset ?env (ucast (FirstThunk (fst ?it)))) = 0"
    using m2 by (simp add: kernel32_descriptor_def)
  from t a2 have c2: "lookup_tables ?env False [] [?it] (file_at unmapped_table_image 44) []
       = Some \<lparr>fh = file_at unmapped_table_image 44, libs = [] @ ?it # [],
               msgs = [] @ [Error ''Could not reach an IMPORT_LOOKUP_TABLE.'']\<rparr>"
    by blast
  have v: "(le_word ?tb :: 64 word) = 0x5000"
    by (simp add: unmapped_hint_image_def)
  have a3: "fread (if False then 8 else 4) (lfh ?t) = (?tb, file_at unmapped_hint_image 48)
      \<and> length ?tb = (if False then 8 else 4)
      \<and> (le_word ?tb :: 64 word) \<noteq> 0
      \<and> (le_word ?tb :: 64 word) AND (if False then 0x8000000000000000 else 0x80000000) = 0
      \<and> rva_to_offset ?env (le_word ?tb AND 0x7FFFFFFF) = 0"
    unfolding v using m2 by (simp add: file_at_def fread_def unmapped_hint_image_def)
  from t a3 have c3: "lookup_loop ?env False ?t =
       Some (Returned (?t\<lparr>lfh := file_at unmapped_hint_image 48,
                         lmsgs := lmsgs ?t @ [Error ''Could not reach the HINT/NAME table.'']\<rparr>))"
    by blast
  from n1 n2 n3 c1' m1 m2 c2 v c3 show ?thesis by simp
qed


lemma parse_imports_descriptor_return:
  assumes "ioh pe = Some magic" and "file_handle pe = Some f"
    and "reach_directory env f = (True, f0)"
    and "continue_n (read_descriptor env) k \<lparr>fh = f0, libs = pe_imports pe, msgs = []\<rparr> = Some s"
    and "read_descriptor env s = Return s'"
  shows "parse_imports env pe =
           Some (True, pe\<lparr>file_handle := Some (fh s'), pe_imports := libs s'\<rparr>, msgs s')"
proof -
  from continue_n_descriptor_loop[OF assms(4)] descriptor_loop_Return[OF assms(5)]
  have "descriptor_loop env \<lparr>fh = f0, libs = pe_imports pe, msgs = []\<rparr> = Some (Returned s')"
    by simp
  with assms(1-3) show ?thesis by (simp add: parse_imports_def)
qed

lemma parse_imports_descriptor_break:
  assumes "ioh pe = Some magic" and "file_handle pe = Some f"
    and "reach_directory env f = (True, f0)"
    and "continue_n (read_descriptor env) k \<lparr>fh = f0, libs = pe_imports pe, msgs = []\<rparr> = Some s"
    and "read_descriptor env s = Break s'"
  shows "parse_imports env pe =
           (case lookup_tables env (magic = pe32plus_magic env) [] (libs s') (fh s') (msgs s') of
              None \<Rightarrow> None
            | Some s'' \<Rightarrow>
                Some (True, pe\<lparr>file_handle := Some (fh s''), pe_imports := libs s''\<rparr>, msgs s''))"
proof -
  from continue_n_descriptor_loop[OF assms(4)] descriptor_loop_Break[OF assms(5)]
  have "descriptor_loop env \<lparr>fh = f0, libs = pe_imports pe, msgs = []\<rparr> = Some (Fallthrough s')"
    by simp
  with assms(1-3) show ?thesis by (simp add: parse_imports_def)
qed





text \<open>
  C5. When the name of a descriptor cannot be read after \<open>k\<close> accepted descriptors of
  a fresh object: for \<open>k > 0\<close> a warning is printed, the descriptor loop is left and
  \<^verbatim>\<open>_parse_imports\<close> goes on with the lookup tables of the \<open>k\<close> libraries, so that the
  table it returns has these \<open>k\<close> libraries; for \<open>k = 0\<close> an error is printed and the
  function returns with no library.
\<close>

theorem name_failure_truncates_or_fails:
  assumes "ioh pe = Some magic" and "file_handle pe = Some f" and "pe_imports pe = []"
    and "reach_directory env f = (True, f0)"
    and "continue_n (read_descriptor env) k \<lparr>fh = f0, libs = [], msgs = []\<rparr> = Some s"
    and "fread 20 (fh s) = (bs, f1)" and "length bs = 20"
    and "\<not> (OriginalFirstThunk (decode_descriptor bs) = 0 \<and> FirstThunk (decode_descriptor bs) = 0)"
    and "read_string_at_offset env f1 (name_offset env (decode_descriptor bs)) = (False, str, f2)"
  shows "length (libs s) = k
       \<and> (0 < k \<longrightarrow>
            parse_imports env pe =
              (case lookup_tables env (magic = pe32plus_magic env) [] (libs s) f2
                      [Warning ''Could not read an import's name.''] of
                 None \<Rightarrow> None
               | Some s' \<Rightarrow>
                   Some (True, pe\<lparr>file_handle := Some (fh s'), pe_imports := libs s'\<rparr>, msgs s')))
       \<and> (0 < k \<longrightarrow>
            (\<forall>r pe' lg. parse_imports env pe = Some (r, pe', lg) \<longrightarrow>
               r \<and> map fst (pe_imports pe') = map fst (libs s) \<and> pe_imports pe' \<noteq> []
                 \<and> Warning ''Could not read an import's name.'' \<in> set lg))
       \<and> (k = 0 \<longrightarrow>
            parse_imports env pe =
              Some (True, pe\<lparr>file_handle := Some f2, pe_imports := []\<rparr>,
                    [Error ''Could not read an import's name.'']))"
proof -
  from continue_n_read_descriptor_libs[OF assms(5)]
  have len: "length (libs s) = k" and m: "msgs s = []" by simp_all
  note step = read_descriptor_name_unreadable[OF assms(6-9)]
  from assms(3,5)
  have reach: "continue_n (read_descriptor env) k \<lparr>fh = f0, libs = pe_imports pe, msgs = []\<rparr> = Some s"
    by simp
  have trunc: "parse_imports env pe =
              (case lookup_tables env (magic = pe32plus_magic env) [] (libs s) f2
                      [Warning ''Could not read an import's name.''] of
                 None \<Rightarrow> None
               | Some s' \<Rightarrow>
                   Some (True, pe\<lparr>file_handle := Some (fh s'), pe_imports := libs s'\<rparr>, msgs s'))"
    if "0 < k"
  proof -
    from that len have "libs s \<noteq> []" by auto
    with step m have "read_descriptor env s =
        Break (s\<lparr>fh := f2, msgs := [Warning ''Could not read an import's name.'']\<rparr>)"
      by simp
    from parse_imports_descriptor_break[OF assms(1,2,4) reach this] show ?thesis by simp
  qed
  have table: "r \<and> map fst (pe_imports pe') = map fst (libs s) \<and> pe_imports pe' \<noteq> []
                 \<and> Warning ''Could not read an import's name.'' \<in> set lg"
    if "0 < k" and p: "parse_imports env pe = Some (r, pe', lg)" for r pe' lg
  proof -
    from trunc[OF that(1)] p obtain s' where
      s': "lookup_tables env (magic = pe32plus_magic env) [] (libs s) f2
             [Warning ''Could not read an import's name.''] = Some s'"
      and r: "r" and pe': "pe_imports pe' = libs s'" and lg: "lg = msgs s'"
      by (auto split: option.splits)
    from lookup_tables_invariant[OF s']
    have d: "map fst (libs s') = map fst (libs s)"
      and "\<exists>m. msgs s' = [Warning ''Could not read an import's name.''] @ m"
      by auto
    moreover from d len that(1) have "libs s' \<noteq> []"
      by (metis length_0_conv length_map less_numeral_extra(3))
    ultimately show ?thesis using r pe' lg by auto
  qed
  have fatal: "parse_imports env pe =
              Some (True, pe\<lparr>file_handle := Some f2, pe_imports := []\<rparr>,
                    [Error ''Could not read an import's name.''])"
    if "k = 0"
  proof -
    from that len have e: "libs s = []" by simp
    with step m have "read_descriptor env s =
        Return (s\<lparr>fh := f2, msgs := [Error ''Could not read an import's name.'']\<rparr>)"
      by simp
    from parse_imports_descriptor_return[OF assms(1,2,4) reach this] e show ?thesis by simp
  qed
  from len trunc table fatal show ?thesis by blast
qed


theorem name_failure_truncates_or_fails_witness:
  "read_string_at_offset image_collaborators (file_at unreadable_second_name_image 44) 0xF00
     = (False, [], file_at unreadable_second_name_image 44)
   \<and> parse_imports image_collaborators (pe32_of unreadable_second_name_image)
     = Some (True,
             (pe32_of unreadable_second_name_image)
               \<lparr>file_handle := Some (file_at unreadable_second_name_image 72),
                pe_imports :=
                  [(\<lparr>OriginalFirstThunk = 0x1040, TimeDateStamp = 0, ForwarderChain = 0,
                     Name = 0x1050, FirstThunk = 0x1040, NameStr = ''a.dll''\<rparr>,
                    [\<lparr>AddressOfData = 0x80000007, Hint = 0, FunctionName = []\<rparr>])]\<rparr>,
             [Warning ''Could not read an import's name.''])
   \<and> read_string_at_offset image_collaborators (file_at unreadable_first_name_image 24) 0xF00
     = (False, [], file_at unreadable_first_name_image 24)
   \<and> parse_imports image_collaborators (pe32_of unreadable_first_name_image)
     = Some (True,
             (pe32_of unreadable_first_name_image)
               \<lparr>file_handle := Some (file_at unreadable_first_name_image 24), pe_imports := []\<rparr>,
             [Error ''Could not read an import's name.''])"
proof -
  let ?env = image_collaborators
  let ?a = "\<lparr>OriginalFirstThunk = 0x1040, TimeDateStamp = 0, ForwarderChain = 0,
             Name = 0x1050, FirstThunk = 0x1040, NameStr = ''a.dll''\<rparr>"
  \<comment> \<open>the name of the second descriptor\<close>
  let ?img = unreadable_second_name_image
  let ?s = "\<lparr>fh = file_at ?img 24, libs = [(?a, [])], msgs = []\<rparr>"
  let ?bs = "take 20 (drop 24 ?img)"
  have d: "decode_descriptor ?bs =
             \<lparr>OriginalFirstThunk = 0x1040, TimeDateStamp = 0, ForwarderChain = 0,
              Name = 0x1F00, FirstThunk = 0x1040, NameStr = []\<rparr>"
    by (simp add: decode_descriptor_def unreadable_second_name_image_def)
  have n: "name_offset ?env (decode_descriptor ?bs) = 0xF00"
    unfolding d by (simp add: name_offset_def image_defs)
  have r: "read_string_at_offset ?env (file_at ?img 44) 0xF00 = (False, [], file_at ?img 44)"
    by (simp add: image_defs parser_defs unreadable_second_name_image_def)
  have h1: "ioh (pe32_of ?img) = Some 0x10B" and h2: "file_handle (pe32_of ?img) = Some (file_at ?img 0)"
    and h3: "pe_imports (pe32_of ?img) = []"
    by (simp_all add: pe32_of_def file_at_def)
  have h4: "reach_directory ?env (file_at ?img 0) = (True, file_at ?img 4)"
    by (simp add: image_defs parser_defs)
  have h5: "continue_n (read_descriptor ?env) (Suc 0) \<lparr>fh = file_at ?img 4, libs = [], msgs = []\<rparr>
              = Some ?s"
    by (simp add: image_defs parser_defs unreadable_second_name_image_def)
  have h6: "fread 20 (fh ?s) = (?bs, file_at ?img 44)" and h7: "length ?bs = 20"
    by (simp_all add: file_at_def fread_def Let_def unreadable_second_name_image_def)
  have h8: "\<not> (OriginalFirstThunk (decode_descriptor ?bs) = 0
               \<and> FirstThunk (decode_descriptor ?bs) = 0)"
    unfolding d by simp
  have h9: "read_string_at_offset ?env (file_at ?img 44) (name_offset ?env (decode_descriptor ?bs))
              = (False, [], file_at ?img 44)"
    unfolding n by (rule r)
  from name_failure_truncates_or_fails[OF h1 h2 h3 h4 h5 h6 h7 h8 h9]
  have "parse_imports ?env (pe32_of ?img) =
          (case lookup_tables ?env (0x10B = pe32plus_magic ?env) [] (libs ?s) (file_at ?img 44)
                  [Warning ''Could not read an import's name.''] of
             None \<Rightarrow> None
           | Some s' \<Rightarrow>
               Some (True, (pe32_of ?img)\<lparr>file_handle := Some (fh s'), pe_imports := libs s'\<rparr>,
                     msgs s'))"
    by simp
  then have w1: "parse_imports ?env (pe32_of ?img)
     = Some (True,
             (pe32_of ?img)
               \<lparr>file_handle := Some (file_at ?img 72),
                pe_imports := [(?a, [\<lparr>AddressOfData = 0x80000007, Hint = 0, FunctionName = []\<rparr>])]\<rparr>,
             [Warning ''Could not read an import's name.''])"
    by (simp add: image_defs parser_defs unreadable_second_name_image_def)
  \<comment> \<open>the name of the first descriptor\<close>
  let ?img0 = unreadable_first_name_image
  let ?s0 = "\<lparr>fh = file_at ?img0 4, libs = [], msgs = []\<rparr>"
  let ?bs0 = "take 20 (drop 4 ?img0)"
  have d0: "decode_descriptor ?bs0 =
             \<lparr>OriginalFirstThunk = 0x1040, TimeDateStamp = 0, ForwarderChain = 0,
              Name = 0x1F00, FirstThunk = 0x1040, NameStr = []\<rparr>"
    by (simp add: decode_descriptor_def unreadable_first_name_image_def)
  have n0: "name_offset ?env (decode_descriptor ?bs0) = 0xF00"
    unfolding d0 by (simp add: name_offset_def image_defs)
  have r0: "read_string_at_offset ?env (file_at ?img0 24) 0xF00 = (False, [], file_at ?img0 24)"
    by (simp add: image_defs parser_defs unreadable_first_name_image_def)
  have g1: "ioh (pe32_of ?img0) = Some 0x10B"
    and g2: "file_handle (pe32_of ?img0) = Some (file_at ?img0 0)"
    and g3: "pe_imports (pe32_of ?img0) = []"
    by (simp_all add: pe32_of_def file_at_def)
  have g4: "reach_directory ?env (file_at ?img0 0) = (True, file_at ?img0 4)"
    by (simp add: image_defs parser_defs)
  have g5: "continue_n (read_descriptor ?env) 0 ?s0 = Some ?s0"
    by simp
  have g6: "fread 20 (fh ?s0) = (?bs0, file_at ?img0 24)" and g7: "length ?bs0 = 20"
    by (simp_all add: file_at_def fread_def Let_def unreadable_first_name_image_def)
  have g8: "\<not> (OriginalFirstThunk (decode_descriptor ?bs0) = 0
               \<and> FirstThunk (decode_descriptor ?bs0) = 0)"
    unfolding d0 by simp
  have g9: "read_string_at_offset ?env (file_at ?img0 24) (name_offset ?env (decode_descriptor ?bs0))
              = (False, [], file_at ?img0 24)"
    unfolding n0 by (rule r0)
  from name_failure_truncates_or_fails[OF g1 g2 g3 g4 g5 g6 g7 g8 g9]
  have w0: "parse_imports ?env (pe32_of ?img0) =
              Some (True, (pe32_of ?img0)\<lparr>file_handle := Some (file_at ?img0 24), pe_imports := []\<rparr>,
                    [Error ''Could not read an import's name.''])"
    by simp
  from r w1 r0 w0 show ?thesis by blast
qed

end
